theory Spec2Isabelle
  imports Main "HOL-Library.AList"
begin

section \<open>Data model (gateway/app/models/schemas.py, gateway/app/config.py)\<close>

datatype Operation = NOVA | FLUX | ATLAS

datatype JobStatus = PENDING | PROCESSING | COMPLETED | FAILED | CANCELLED

datatype SubscriptionTier = FREE_TRIAL | CURATOR | STUDIO | GALLERY

text \<open>
  The option models. \<open>tier\<close> is \<open>Literal["standard", "full_gcx"]\<close>, \<open>model\<close> is
  \<open>Literal["2x", "4x", "anime", "photo"]\<close> and \<open>format\<close> is
  \<open>Literal["png", "jpg", "webp"]\<close>; the fields stay strings because the code compares
  them with string literals.
\<close>

record NovaOptions =
  tier :: string
  language :: string

record FluxOptions =
  model :: string

record AtlasOptions =
  format :: string

record OperationOptions =
  nova :: "NovaOptions option"
  flux :: "FluxOptions option"
  atlas :: "AtlasOptions option"

definition nova_tiers :: "string list" where
  "nova_tiers = [''standard'', ''full_gcx'']"

definition flux_models :: "string list" where
  "flux_models = [''2x'', ''4x'', ''anime'', ''photo'']"

text \<open>\<open>OperationOptions()\<close>: every sub-option defaults to \<open>None\<close>.\<close>

definition default_options :: OperationOptions where
  "default_options = \<lparr>nova = None, flux = None, atlas = None\<rparr>"

text \<open>The fields of \<open>Settings\<close> that the services read.\<close>

record Settings =
  nova_agent_url :: string
  flux_agent_url :: string
  atlas_agent_url :: string
  rate_limit_free :: int
  rate_limit_curator :: int
  rate_limit_studio :: int
  rate_limit_gallery :: int
  cost_nova_standard :: int
  cost_nova_full :: int
  cost_flux_2x :: int
  cost_flux_4x :: int
  cost_atlas :: int

definition default_settings :: Settings where
  "default_settings =
     \<lparr>nova_agent_url = ''https://nova-agent-172867820131.us-west1.run.app'',
      flux_agent_url = ''https://flux-agent-172867820131.us-west1.run.app'',
      atlas_agent_url = ''https://atlas-agent-172867820131.us-west1.run.app'',
      rate_limit_free = 10,
      rate_limit_curator = 30,
      rate_limit_studio = 100,
      rate_limit_gallery = 300,
      cost_nova_standard = 1,
      cost_nova_full = 2,
      cost_flux_2x = 1,
      cost_flux_4x = 2,
      cost_atlas = 1\<rparr>"

text \<open>\<open>CostBreakdownItem\<close>-shaped entries of the breakdown dictionary.\<close>

record BreakdownItem =
  item_cost :: int
  item_tier :: "string option"
  item_model :: "string option"

section \<open>Cost table (gateway/app/services/tokens.py, calculate\_cost)\<close>

text \<open>
  The three \<open>if Operation.X in operations\<close> blocks, each adding to \<open>total\<close> and
  storing one entry of \<open>breakdown\<close>. The settings, read by \<open>get_settings()\<close> in the
  source, are an argument.
\<close>

definition nova_cost :: "Settings \<Rightarrow> OperationOptions \<Rightarrow> int \<times> string" where
  "nova_cost settings options =
     (let tier = (case nova options of None \<Rightarrow> ''standard'' | Some nova_opts \<Rightarrow> tier nova_opts);
          cost = (if tier = ''full_gcx'' then cost_nova_full settings
                  else cost_nova_standard settings)
      in (cost, tier))"

definition flux_cost :: "Settings \<Rightarrow> OperationOptions \<Rightarrow> int \<times> string" where
  "flux_cost settings options =
     (let model = (case flux options of None \<Rightarrow> ''4x'' | Some flux_opts \<Rightarrow> model flux_opts);
          cost = (if model \<in> set [''4x'', ''anime'', ''photo''] then cost_flux_4x settings
                  else cost_flux_2x settings)
      in (cost, model))"

definition calculate_cost ::
  "Settings \<Rightarrow> Operation list \<Rightarrow> OperationOptions option
     \<Rightarrow> int \<times> (string \<times> BreakdownItem) list" where
  "calculate_cost settings operations options0 =
     (let options = (case options0 of None \<Rightarrow> default_options | Some opts \<Rightarrow> opts);
          total = 0;
          breakdown = [];
          (total, breakdown) =
            (if NOVA \<in> set operations then
               (let (cost, tier) = nova_cost settings options
                in (total + cost,
                    AList.update ''nova''
                      \<lparr>item_cost = cost, item_tier = Some tier, item_model = None\<rparr> breakdown))
             else (total, breakdown));
          (total, breakdown) =
            (if FLUX \<in> set operations then
               (let (cost, model) = flux_cost settings options
                in (total + cost,
                    AList.update ''flux''
                      \<lparr>item_cost = cost, item_tier = None, item_model = Some model\<rparr> breakdown))
             else (total, breakdown));
          (total, breakdown) =
            (if ATLAS \<in> set operations then
               (let cost = cost_atlas settings
                in (total + cost,
                    AList.update ''atlas''
                      \<lparr>item_cost = cost, item_tier = None, item_model = None\<rparr> breakdown))
             else (total, breakdown))
      in (total, breakdown))"

text \<open>The price of one flux model choice, with only that option set.\<close>

definition flux_price :: "Settings \<Rightarrow> string \<Rightarrow> int" where
  "flux_price settings m =
     fst (flux_cost settings (default_options\<lparr>flux := Some \<lparr>model = m\<rparr>\<rparr>))"

definition nova_price :: "Settings \<Rightarrow> string \<Rightarrow> int" where
  "nova_price settings t =
     fst (nova_cost settings (default_options\<lparr>nova := Some \<lparr>tier = t, language = ''en''\<rparr>\<rparr>))"

text \<open>What the breakdown records for one stage (0 when the stage has no entry).\<close>

definition breakdown_cost :: "(string \<times> BreakdownItem) list \<Rightarrow> string \<Rightarrow> int" where
  "breakdown_cost breakdown k =
     (case map_of breakdown k of None \<Rightarrow> 0 | Some item \<Rightarrow> item_cost item)"

section \<open>The document store and the outside world\<close>

text \<open>
  Firestore holds two collections: \<open>users\<close> (each user document with its
  \<open>tokenTransactions\<close> sub-collection) and \<open>api_jobs\<close>. A collection is an
  association list from document id to document: \<open>map_of\<close> reads a document,
  \<open>AList.update\<close> is \<open>document(id).set(...)\<close>. Field values are the integers the
  services write.
\<close>

record TokenTransaction =
  tx_type :: string
  tx_amount :: int
  tx_reason :: string
  tx_job_id :: string
  tx_balance_after :: int
  tx_source :: string

text \<open>
  A user document. \<open>tokens_balance\<close> is the field \<open>tokens.balance\<close> and
  \<open>credits_available\<close> the legacy field, each \<open>None\<close> when the document has no such
  field (the code reads both with \<open>.get(..., 0)\<close>). \<open>tokens_totalSpent\<close> is only
  ever changed by \<open>firestore.Increment\<close>, which counts a missing field as 0.
\<close>

record UserDoc =
  tokens_balance :: "int option"
  tokens_totalSpent :: int
  credits_available :: "int option"
  tokenTransactions :: "TokenTransaction list"

type_synonym GoldenCodex = "(string \<times> string) list"

record ErrorData =
  code :: string
  message :: string
  retryable :: bool

text \<open>The \<open>results\<close> dictionary built by the pipeline: \<open>urls\<close> and \<open>golden_codex\<close>.\<close>

record Results =
  urls_original :: string
  urls_upscaled :: "string option"
  urls_final :: "string option"
  golden_codex :: "GoldenCodex option"

record JobDoc =
  job_id :: string
  user_id :: string
  api_key_id :: string
  request_id :: "string option"
  status :: JobStatus
  image_url :: string
  operations :: "Operation list"
  options :: "OperationOptions option"
  webhook_url :: "string option"
  client_metadata :: "(string \<times> string) list"
  cost_estimated :: int
  cost_charged :: int
  cost_refunded :: int
  progress_nova :: "JobStatus option"
  progress_flux :: "JobStatus option"
  progress_atlas :: "JobStatus option"
  results :: "Results option"
  error :: "ErrorData option"
  created_at :: int
  started_at :: "int option"
  completed_at :: "int option"
  is_test_mode :: bool

text \<open>
  Every HTTP request the gateway sends: the three agent calls of the pipeline and the
  webhook post, with the JSON bodies the code builds.
\<close>

datatype ExtCall =
    NovaEnrich string string string string string string
      \<comment> \<open>url, image\_url, user\_id, job\_id, analysis\_depth, metadata\_tier\<close>
  | FluxUpscale string string string string string
      \<comment> \<open>url, image\_url, user\_id, job\_id, model\<close>
  | AtlasInfuse string string string string GoldenCodex string string
      \<comment> \<open>url, image\_url, user\_id, job\_id, golden\_codex, metadata\_mode, output\_format\<close>
  | WebhookPost string string string JobStatus "Results option" "ErrorData option"
      \<comment> \<open>webhook url, event, job\_id, status, results, error\<close>

text \<open>
  The agents. A call either raises (connection error, timeout after 300 seconds, an HTTP
  error status from \<open>raise_for_status\<close>, a body that is not JSON), which is \<open>Inl\<close> with
  the text of the exception, or returns the field the pipeline reads from the JSON body:
  \<open>golden_codex\<close>, \<open>upscaled_image_url\<close>, \<open>final_url\<close> (\<open>None\<close> when absent).
\<close>

record Agents =
  nova_agent :: "ExtCall \<Rightarrow> string + GoldenCodex option"
  flux_agent :: "ExtCall \<Rightarrow> string + string option"
  atlas_agent :: "ExtCall \<Rightarrow> string + string option"

record World =
  users :: "(string \<times> UserDoc) list"
  api_jobs :: "(string \<times> JobDoc) list"
  outbox :: "ExtCall list"

datatype Error =
    HTTP_402_user_not_found
  | HTTP_402_insufficient_credits int int  \<comment> \<open>balance, required\<close>
  | NotFound string  \<comment> \<open>Firestore: update of a document that does not exist\<close>
  | KeyError string
  | ValidationError string
  | TypeError
  | HTTP_429_rate_limited int int int int
      \<comment> \<open>retry\_after, then the headers X-RateLimit-Limit, -Remaining and -Reset\<close>

section \<open>Ledger (gateway/app/services/tokens.py)\<close>

text \<open>
  \<open>check_balance\<close>: the balance an account is seen to have, with the fallback to the
  legacy field when \<open>tokens.balance\<close> is 0 or missing.
\<close>

definition check_balance :: "string \<Rightarrow> int \<Rightarrow> World \<Rightarrow> bool \<times> int" where
  "check_balance uid required s =
     (case map_of (users s) uid of
        None \<Rightarrow> (False, 0)
      | Some user_data \<Rightarrow>
          (let balance = (case tokens_balance user_data of None \<Rightarrow> 0 | Some b \<Rightarrow> b);
               balance = (if balance = 0
                          then (case credits_available user_data of None \<Rightarrow> 0 | Some c \<Rightarrow> c)
                          else balance)
           in (balance \<ge> required, balance)))"

text \<open>
  \<open>deduct_tokens\<close>: the transactional closure. Both raises come before the first write,
  so on an error the state is returned as it was; the returned state shows it.
\<close>

definition deduct_tokens ::
  "string \<Rightarrow> int \<Rightarrow> string \<Rightarrow> string \<Rightarrow> World \<Rightarrow> (Error + int) \<times> World" where
  "deduct_tokens uid amount reason jid s =
     (case map_of (users s) uid of
        None \<Rightarrow> (Inl HTTP_402_user_not_found, s)
      | Some user_data \<Rightarrow>
          (let current_balance = (case tokens_balance user_data of None \<Rightarrow> 0 | Some b \<Rightarrow> b);
               current_balance =
                 (if current_balance = 0
                  then (case credits_available user_data of None \<Rightarrow> 0 | Some c \<Rightarrow> c)
                  else current_balance)
           in if current_balance < amount
              then (Inl (HTTP_402_insufficient_credits current_balance amount), s)
              else
                (let new_balance = current_balance - amount;
                     user_data' = user_data
                       \<lparr>tokens_balance := Some new_balance,
                        tokens_totalSpent := tokens_totalSpent user_data + amount,
                        tokenTransactions := tokenTransactions user_data @
                          [\<lparr>tx_type = ''deduction'', tx_amount = amount, tx_reason = reason,
                            tx_job_id = jid, tx_balance_after = new_balance,
                            tx_source = ''api''\<rparr>]\<rparr>
                 in (Inr new_balance, s\<lparr>users := AList.update uid user_data' (users s)\<rparr>))))"

text \<open>
  \<open>refund_tokens\<close>: no fallback to the legacy field here; a missing user returns 0 and
  writes nothing.
\<close>

definition refund_tokens ::
  "string \<Rightarrow> int \<Rightarrow> string \<Rightarrow> string \<Rightarrow> World \<Rightarrow> int \<times> World" where
  "refund_tokens uid amount reason jid s =
     (case map_of (users s) uid of
        None \<Rightarrow> (0, s)
      | Some user_data \<Rightarrow>
          (let current_balance = (case tokens_balance user_data of None \<Rightarrow> 0 | Some b \<Rightarrow> b);
               new_balance = current_balance + amount;
               user_data' = user_data
                 \<lparr>tokens_balance := Some new_balance,
                  tokens_totalSpent := tokens_totalSpent user_data + (- amount),
                  tokenTransactions := tokenTransactions user_data @
                    [\<lparr>tx_type = ''refund'', tx_amount = amount, tx_reason = reason,
                      tx_job_id = jid, tx_balance_after = new_balance,
                      tx_source = ''api''\<rparr>]\<rparr>
           in (new_balance, s\<lparr>users := AList.update uid user_data' (users s)\<rparr>)))"

text \<open>
  A job history on the ledger: the deductions and refunds made for one job of one
  account, in order. A deduction that raises leaves the state and the history goes on.
\<close>

datatype LedgerOp = Deduct int | Refund int

fun apply_ledger_op :: "string \<Rightarrow> string \<Rightarrow> LedgerOp \<Rightarrow> World \<Rightarrow> World" where
  "apply_ledger_op uid jid (Deduct amount) s = snd (deduct_tokens uid amount ''api_job'' jid s)"
| "apply_ledger_op uid jid (Refund amount) s = snd (refund_tokens uid amount ''job_failed'' jid s)"

fun run_history :: "string \<Rightarrow> string \<Rightarrow> LedgerOp list \<Rightarrow> World \<Rightarrow> World" where
  "run_history uid jid [] s = s"
| "run_history uid jid (x # xs) s = run_history uid jid xs (apply_ledger_op uid jid x s)"

text \<open>
  The audit trail's totals for a job: the amounts of the transaction records of one type
  that name the job.
\<close>

definition tx_total :: "string \<Rightarrow> string \<Rightarrow> string \<Rightarrow> World \<Rightarrow> int" where
  "tx_total ty uid jid s =
     (case map_of (users s) uid of
        None \<Rightarrow> 0
      | Some user_data \<Rightarrow>
          sum_list (map tx_amount
            (filter (\<lambda>t. tx_type t = ty \<and> tx_job_id t = jid) (tokenTransactions user_data))))"

definition charged_total :: "string \<Rightarrow> string \<Rightarrow> World \<Rightarrow> int" where
  "charged_total = tx_total ''deduction''"

definition refunded_total :: "string \<Rightarrow> string \<Rightarrow> World \<Rightarrow> int" where
  "refunded_total = tx_total ''refund''"

definition observed_balance :: "string \<Rightarrow> World \<Rightarrow> int" where
  "observed_balance uid s = snd (check_balance uid 0 s)"

text \<open>An account that has no legacy credits: the field is missing or 0.\<close>

definition no_legacy_credits :: "string \<Rightarrow> World \<Rightarrow> bool" where
  "no_legacy_credits uid s =
     (case map_of (users s) uid of
        None \<Rightarrow> True
      | Some user_data \<Rightarrow> credits_available user_data = None \<or> credits_available user_data = Some 0)"

section \<open>Jobs (gateway/app/services/jobs.py)\<close>

text \<open>
  \<open>job_ref.update(...)\<close> on a document that exists. Every caller has read or written
  the document before its first update (\<open>cancel_job\<close> checks \<open>exists\<close>,
  \<open>trigger_pipeline\<close>'s first update is modelled with its raise), so the missing
  document never reaches this function.
\<close>

definition update_job :: "string \<Rightarrow> (JobDoc \<Rightarrow> JobDoc) \<Rightarrow> World \<Rightarrow> World" where
  "update_job jid f s =
     (case map_of (api_jobs s) jid of
        None \<Rightarrow> s
      | Some j \<Rightarrow> s\<lparr>api_jobs := AList.update jid (f j) (api_jobs s)\<rparr>)"

text \<open>
  \<open>trigger_webhook\<close>: nothing without a URL; otherwise one post, whose own failure is
  swallowed by the \<open>except Exception: pass\<close>.
\<close>

definition trigger_webhook :: "string \<Rightarrow> string \<Rightarrow> JobDoc \<Rightarrow> World \<Rightarrow> World" where
  "trigger_webhook jid event job_data s =
     (case webhook_url job_data of
        None \<Rightarrow> s
      | Some url \<Rightarrow>
          if url = [] then s
          else s\<lparr>outbox := outbox s @
                 [WebhookPost url event jid (status job_data) (results job_data)
                    (error job_data)]\<rparr>)"

text \<open>The JSON bodies of the three agent calls.\<close>

definition nova_request ::
  "Settings \<Rightarrow> OperationOptions option \<Rightarrow> string \<Rightarrow> string \<Rightarrow> string \<Rightarrow> ExtCall" where
  "nova_request settings opts current_image_url uid jid =
     (let nova_options = (case opts of None \<Rightarrow> None | Some os \<Rightarrow> nova os)
      in NovaEnrich (nova_agent_url settings @ ''/enrich'') current_image_url uid jid
           (case nova_options of
              None \<Rightarrow> ''standard''
            | Some n \<Rightarrow> if tier n = ''full_gcx'' then ''full'' else ''standard'')
           (case nova_options of None \<Rightarrow> ''standard'' | Some n \<Rightarrow> tier n))"

definition flux_request ::
  "Settings \<Rightarrow> OperationOptions option \<Rightarrow> string \<Rightarrow> string \<Rightarrow> string \<Rightarrow> ExtCall" where
  "flux_request settings opts current_image_url uid jid =
     (let flux_options = (case opts of None \<Rightarrow> None | Some os \<Rightarrow> flux os)
      in FluxUpscale (flux_agent_url settings @ ''/upscale'') current_image_url uid jid
           (case flux_options of None \<Rightarrow> ''4x'' | Some f \<Rightarrow> model f))"

definition atlas_request ::
  "Settings \<Rightarrow> OperationOptions option \<Rightarrow> string \<Rightarrow> string \<Rightarrow> string \<Rightarrow> Results \<Rightarrow> ExtCall" where
  "atlas_request settings opts current_image_url uid jid res =
     (let atlas_options = (case opts of None \<Rightarrow> None | Some os \<Rightarrow> atlas os)
      in AtlasInfuse (atlas_agent_url settings @ ''/infuse'') current_image_url uid jid
           (case golden_codex res of None \<Rightarrow> [] | Some g \<Rightarrow> g)
           ''full_gcx''
           (case atlas_options of None \<Rightarrow> ''png'' | Some a \<Rightarrow> format a))"

text \<open>
  The three stages of the \<open>try\<close> body. Each takes and returns the pair
  \<open>(results, current_image_url)\<close>; \<open>Inl\<close> is the exception that leaves the body.
\<close>

definition nova_stage ::
  "Settings \<Rightarrow> Agents \<Rightarrow> string \<Rightarrow> Operation list \<Rightarrow> OperationOptions option \<Rightarrow> string
     \<Rightarrow> Results \<times> string \<Rightarrow> World \<Rightarrow> (string + Results \<times> string) \<times> World" where
  "nova_stage settings agents jid ops opts uid acc s =
     (if NOVA \<in> set ops then
        (let s1 = update_job jid (\<lambda>j. j\<lparr>progress_nova := Some PROCESSING\<rparr>) s;
             req = nova_request settings opts (snd acc) uid jid;
             s2 = s1\<lparr>outbox := outbox s1 @ [req]\<rparr>
         in case nova_agent agents req of
              Inl e \<Rightarrow> (Inl e, s2)
            | Inr gc \<Rightarrow>
                (Inr ((fst acc)\<lparr>golden_codex := Some (case gc of None \<Rightarrow> [] | Some g \<Rightarrow> g)\<rparr>,
                      snd acc),
                 update_job jid (\<lambda>j. j\<lparr>progress_nova := Some COMPLETED\<rparr>) s2))
      else (Inr acc, s))"

definition flux_stage ::
  "Settings \<Rightarrow> Agents \<Rightarrow> string \<Rightarrow> Operation list \<Rightarrow> OperationOptions option \<Rightarrow> string
     \<Rightarrow> Results \<times> string \<Rightarrow> World \<Rightarrow> (string + Results \<times> string) \<times> World" where
  "flux_stage settings agents jid ops opts uid acc s =
     (if FLUX \<in> set ops then
        (let s1 = update_job jid (\<lambda>j. j\<lparr>progress_flux := Some PROCESSING\<rparr>) s;
             req = flux_request settings opts (snd acc) uid jid;
             s2 = s1\<lparr>outbox := outbox s1 @ [req]\<rparr>
         in case flux_agent agents req of
              Inl e \<Rightarrow> (Inl e, s2)
            | Inr upscaled_url \<Rightarrow>
                ((case upscaled_url of
                    None \<Rightarrow> Inr acc
                  | Some u \<Rightarrow>
                      if u = [] then Inr acc
                      else Inr ((fst acc)\<lparr>urls_upscaled := Some u\<rparr>, u)),
                 update_job jid (\<lambda>j. j\<lparr>progress_flux := Some COMPLETED\<rparr>) s2))
      else (Inr acc, s))"

definition atlas_stage ::
  "Settings \<Rightarrow> Agents \<Rightarrow> string \<Rightarrow> Operation list \<Rightarrow> OperationOptions option \<Rightarrow> string
     \<Rightarrow> Results \<times> string \<Rightarrow> World \<Rightarrow> (string + Results \<times> string) \<times> World" where
  "atlas_stage settings agents jid ops opts uid acc s =
     (if ATLAS \<in> set ops then
        (let s1 = update_job jid (\<lambda>j. j\<lparr>progress_atlas := Some PROCESSING\<rparr>) s;
             req = atlas_request settings opts (snd acc) uid jid (fst acc);
             s2 = s1\<lparr>outbox := outbox s1 @ [req]\<rparr>
         in case atlas_agent agents req of
              Inl e \<Rightarrow> (Inl e, s2)
            | Inr final_url \<Rightarrow>
                ((case final_url of
                    None \<Rightarrow> Inr acc
                  | Some u \<Rightarrow>
                      if u = [] then Inr acc
                      else Inr ((fst acc)\<lparr>urls_final := Some u\<rparr>, snd acc)),
                 update_job jid (\<lambda>j. j\<lparr>progress_atlas := Some COMPLETED\<rparr>) s2))
      else (Inr acc, s))"

text \<open>The whole \<open>try\<close> body up to the end of the \<open>async with\<close> block.\<close>

definition run_stages ::
  "Settings \<Rightarrow> Agents \<Rightarrow> string \<Rightarrow> string \<Rightarrow> Operation list \<Rightarrow> OperationOptions option
     \<Rightarrow> string \<Rightarrow> World \<Rightarrow> (string + Results) \<times> World" where
  "run_stages settings agents jid img ops opts uid s =
     (let results0 = \<lparr>urls_original = img, urls_upscaled = None, urls_final = None,
                       golden_codex = None\<rparr>
      in case nova_stage settings agents jid ops opts uid (results0, img) s of
           (Inl e, s1) \<Rightarrow> (Inl e, s1)
         | (Inr acc1, s1) \<Rightarrow>
             (case flux_stage settings agents jid ops opts uid acc1 s1 of
                (Inl e, s2) \<Rightarrow> (Inl e, s2)
              | (Inr acc2, s2) \<Rightarrow>
                  (case atlas_stage settings agents jid ops opts uid acc2 s2 of
                     (Inl e, s3) \<Rightarrow> (Inl e, s3)
                   | (Inr acc3, s3) \<Rightarrow> (Inr (fst acc3), s3))))"

text \<open>
  The \<open>except Exception\<close> handler of \<open>trigger_pipeline\<close>: mark the job failed, refund
  what was charged, post the failure webhook. \<open>job_data\<close> is read after the status
  update and before \<open>cost.refunded\<close> is written, as in the source.
\<close>

definition pipeline_failed :: "int \<Rightarrow> string \<Rightarrow> string \<Rightarrow> string \<Rightarrow> World \<Rightarrow> World" where
  "pipeline_failed now jid uid e s =
     (let error_data = \<lparr>code = ''pipeline_error'', message = e, retryable = True\<rparr>;
          s1 = update_job jid
                 (\<lambda>j. j\<lparr>status := FAILED, error := Some error_data,
                        completed_at := Some now\<rparr>) s
      in case map_of (api_jobs s1) jid of
           None \<Rightarrow> s1
         | Some job_data \<Rightarrow>
             (let cost = cost_charged job_data;
                  s2 = (if cost > 0
                        then update_job jid (\<lambda>j. j\<lparr>cost_refunded := cost\<rparr>)
                               (snd (refund_tokens uid cost ''job_failed'' jid s1))
                        else s1)
              in trigger_webhook jid ''job.failed'' job_data s2))"

definition pipeline_completed :: "int \<Rightarrow> string \<Rightarrow> Results \<Rightarrow> World \<Rightarrow> World" where
  "pipeline_completed now jid res s =
     (let s1 = update_job jid
                 (\<lambda>j. j\<lparr>status := COMPLETED, results := Some res,
                        completed_at := Some now\<rparr>) s
      in case map_of (api_jobs s1) jid of
           None \<Rightarrow> s1
         | Some job_data \<Rightarrow> trigger_webhook jid ''job.completed'' job_data s1)"

text \<open>
  \<open>trigger_pipeline\<close>. The first update stands outside the \<open>try\<close>: on a missing
  document it raises and nothing else runs. \<open>now\<close> stands for the readings of
  \<open>datetime.utcnow()\<close>.
\<close>

definition trigger_pipeline ::
  "Settings \<Rightarrow> Agents \<Rightarrow> int \<Rightarrow> string \<Rightarrow> string \<Rightarrow> Operation list \<Rightarrow> OperationOptions option
     \<Rightarrow> string \<Rightarrow> World \<Rightarrow> (Error + unit) \<times> World" where
  "trigger_pipeline settings agents now jid img ops opts uid s =
     (case map_of (api_jobs s) jid of
        None \<Rightarrow> (Inl (NotFound jid), s)
      | Some _ \<Rightarrow>
          (let s1 = update_job jid (\<lambda>j. j\<lparr>status := PROCESSING, started_at := Some now\<rparr>) s
           in case run_stages settings agents jid img ops opts uid s1 of
                (Inr res, s2) \<Rightarrow> (Inr (), pipeline_completed now jid res s2)
              | (Inl e, s2) \<Rightarrow> (Inr (), pipeline_failed now jid uid e s2)))"

text \<open>The dictionary \<open>create_job\<close> returns; \<open>r_cost\<close> keeps its keys.\<close>

record CreateResult =
  r_job_id :: string
  r_status :: JobStatus
  r_operations :: "Operation list"
  r_cost :: "(string \<times> int) list"
  r_created_at :: int
  r_links_self :: string
  r_links_cancel :: string
  r_message :: "string option"

text \<open>
  The idempotency query: the first job document of this user with this
  \<open>request_id\<close> (\<open>limit(1)\<close>).
\<close>

definition find_existing :: "string \<Rightarrow> string \<Rightarrow> World \<Rightarrow> JobDoc option" where
  "find_existing uid rid s =
     map_option snd
       (List.find (\<lambda>kj. user_id (snd kj) = uid \<and> request_id (snd kj) = Some rid) (api_jobs s))"

text \<open>
  The idempotency check of \<open>create_job\<close>: the guard \<open>if request_id:\<close> is false for
  \<open>None\<close> and for the empty string, and then no query is made.
\<close>

definition existing_job :: "string \<Rightarrow> string option \<Rightarrow> World \<Rightarrow> JobDoc option" where
  "existing_job uid rid s =
     (case rid of
        None \<Rightarrow> None
      | Some r \<Rightarrow> if r = [] then None else find_existing uid r s)"

text \<open>The dictionary \<open>job_data\<close> that \<open>create_job\<close> stores for a new job.\<close>

definition new_job_data ::
  "Settings \<Rightarrow> int \<Rightarrow> string \<Rightarrow> string \<Rightarrow> string \<Rightarrow> string \<Rightarrow> Operation list
     \<Rightarrow> OperationOptions option \<Rightarrow> string option \<Rightarrow> (string \<times> string) list option
     \<Rightarrow> string option \<Rightarrow> bool \<Rightarrow> JobDoc" where
  "new_job_data settings now new_job_id uid akid img ops opts wh cm rid test =
     (let total_cost = fst (calculate_cost settings ops opts)
      in \<lparr>job_id = new_job_id, user_id = uid, api_key_id = akid,
          request_id = rid, status = PENDING, image_url = img,
          operations = ops, options = opts,
          webhook_url = (case wh of
                           None \<Rightarrow> None
                         | Some w \<Rightarrow> if w = [] then None else Some w),
          client_metadata = (case cm of None \<Rightarrow> [] | Some m \<Rightarrow> m),
          cost_estimated = total_cost, cost_charged = total_cost,
          cost_refunded = 0,
          progress_nova = (if NOVA \<in> set ops then Some PENDING else None),
          progress_flux = (if FLUX \<in> set ops then Some PENDING else None),
          progress_atlas = (if ATLAS \<in> set ops then Some PENDING else None),
          results = None, error = None, created_at = now,
          started_at = None, completed_at = None, is_test_mode = test\<rparr>)"

text \<open>\<open>create_job\<close>. \<open>new_job_id\<close> is what \<open>generate_job_id()\<close> returns.\<close>

definition create_job ::
  "Settings \<Rightarrow> Agents \<Rightarrow> int \<Rightarrow> string \<Rightarrow> string \<Rightarrow> string \<Rightarrow> string \<Rightarrow> Operation list
     \<Rightarrow> OperationOptions option \<Rightarrow> string option \<Rightarrow> (string \<times> string) list option
     \<Rightarrow> string option \<Rightarrow> bool \<Rightarrow> World \<Rightarrow> (Error + CreateResult) \<times> World" where
  "create_job settings agents now new_job_id uid akid img ops opts wh cm rid test s =
     (let total_cost = fst (calculate_cost settings ops opts);
          existing = existing_job uid rid s
      in case existing of
           Some e \<Rightarrow>
             (Inr \<lparr>r_job_id = job_id e, r_status = status e, r_operations = operations e,
                   r_cost = [(''estimated_aet'', cost_estimated e)],
                   r_created_at = created_at e,
                   r_links_self = ''/v1/jobs/'' @ job_id e,
                   r_links_cancel = ''/v1/jobs/'' @ job_id e,
                   r_message = Some ''Job already created for this request_id''\<rparr>, s)
         | None \<Rightarrow>
             (case deduct_tokens uid total_cost ''api_job'' new_job_id s of
                (Inl err, s1) \<Rightarrow> (Inl err, s1)
              | (Inr _, s1) \<Rightarrow>
                  (let job_data = new_job_data settings now new_job_id uid akid img ops opts
                                    wh cm rid test;
                       s2 = s1\<lparr>api_jobs := AList.update new_job_id job_data (api_jobs s1)\<rparr>
                   in case trigger_pipeline settings agents now new_job_id img ops opts uid s2 of
                        (Inl err, s3) \<Rightarrow> (Inl err, s3)
                      | (Inr _, s3) \<Rightarrow>
                          (Inr \<lparr>r_job_id = new_job_id, r_status = PENDING, r_operations = ops,
                                r_cost = [(''estimated_aet'', total_cost)],
                                r_created_at = now,
                                r_links_self = ''/v1/jobs/'' @ new_job_id,
                                r_links_cancel = ''/v1/jobs/'' @ new_job_id,
                                r_message = None\<rparr>, s3))))"

text \<open>\<open>cancel_job\<close>: the three early returns, then the update, then the refund.\<close>

definition cancel_job :: "int \<Rightarrow> string \<Rightarrow> string \<Rightarrow> World \<Rightarrow> bool \<times> World" where
  "cancel_job now jid uid s =
     (case map_of (api_jobs s) jid of
        None \<Rightarrow> (False, s)
      | Some job_data \<Rightarrow>
          if user_id job_data \<noteq> uid then (False, s)
          else if status job_data \<noteq> PENDING then (False, s)
          else
            (let s1 = update_job jid
                        (\<lambda>j. j\<lparr>status := CANCELLED, completed_at := Some now\<rparr>) s;
                 cost = cost_charged job_data;
                 s2 = (if cost > 0
                       then update_job jid (\<lambda>j. j\<lparr>cost_refunded := cost\<rparr>)
                              (snd (refund_tokens uid cost ''job_cancelled'' jid s1))
                       else s1)
             in (True, s2)))"

section \<open>The create endpoint (gateway/app/routers/jobs.py)\<close>

text \<open>
  \<open>create_job_endpoint\<close> after the service returns: the keyword arguments of
  \<open>CreateJobResponse\<close> are evaluated in order, and \<open>result["cost"]["estimated_gcx"]\<close>
  raises \<open>KeyError\<close> when the key is missing. Were the key there, \<open>JobCost\<close> would be
  built with the keyword \<open>estimated_gcx\<close> only, and the schema's required field
  \<open>estimated_aet\<close> would be missing.
\<close>

definition create_job_endpoint ::
  "Settings \<Rightarrow> Agents \<Rightarrow> int \<Rightarrow> string \<Rightarrow> string \<Rightarrow> string \<Rightarrow> string \<Rightarrow> Operation list
     \<Rightarrow> OperationOptions option \<Rightarrow> string option \<Rightarrow> (string \<times> string) list option
     \<Rightarrow> string option \<Rightarrow> bool \<Rightarrow> World \<Rightarrow> (Error + CreateResult) \<times> World" where
  "create_job_endpoint settings agents now new_job_id uid akid img ops opts wh cm x_request_id
       test s =
     (case create_job settings agents now new_job_id uid akid img ops opts
             (case wh of None \<Rightarrow> None | Some w \<Rightarrow> if w = [] then None else Some w)
             cm x_request_id test s of
        (Inl err, s') \<Rightarrow> (Inl err, s')
      | (Inr result, s') \<Rightarrow>
          (case map_of (r_cost result) ''estimated_gcx'' of
             None \<Rightarrow> (Inl (KeyError ''estimated_gcx''), s')
           | Some v \<Rightarrow> (Inl (ValidationError ''estimated_aet''), s')))"

section \<open>Rate limiter (gateway/app/services/rate\_limit.py)\<close>

record AuthContext =
  auth_user_id :: string
  key_id :: string
  auth_tier :: SubscriptionTier
  balance :: int
  auth_is_test_mode :: bool
  permissions :: "string list"

record RateLimitWindow =
  count :: int
  window_start :: int

text \<open>The process-wide dictionary \<open>_rate_limits\<close>.\<close>

type_synonym RateLimits = "string \<rightharpoonup> RateLimitWindow"

definition get_rate_limit_for_tier :: "Settings \<Rightarrow> SubscriptionTier \<Rightarrow> int" where
  "get_rate_limit_for_tier settings t =
     (case t of
        FREE_TRIAL \<Rightarrow> rate_limit_free settings
      | CURATOR \<Rightarrow> rate_limit_curator settings
      | STUDIO \<Rightarrow> rate_limit_studio settings
      | GALLERY \<Rightarrow> rate_limit_gallery settings)"

text \<open>
  \<open>check_rate_limit\<close>; \<open>now\<close> is \<open>int(time.time())\<close>. The counter is incremented
  before the comparison, also on the call that is refused. The success value is
  \<open>(limit, remaining, reset_timestamp)\<close>.
\<close>

definition check_rate_limit ::
  "Settings \<Rightarrow> int \<Rightarrow> AuthContext \<Rightarrow> RateLimits \<Rightarrow> (Error + int \<times> int \<times> int) \<times> RateLimits" where
  "check_rate_limit settings now auth rl =
     (let limit = get_rate_limit_for_tier settings (auth_tier auth);
          ws = (now div 60) * 60;
          window_reset = ws + 60;
          window = (case rl (key_id auth) of
                      None \<Rightarrow> \<lparr>count = 0, window_start = ws\<rparr>
                    | Some w \<Rightarrow> if window_start w \<noteq> ws then \<lparr>count = 0, window_start = ws\<rparr>
                                else w);
          window = window\<lparr>count := count window + 1\<rparr>;
          rl' = rl(key_id auth \<mapsto> window);
          remaining = max 0 (limit - count window)
      in if count window > limit
         then (Inl (HTTP_429_rate_limited (window_reset - now) limit 0 window_reset), rl')
         else (Inr (limit, remaining, window_reset), rl'))"

text \<open>Successive requests with one credential, at the given clock readings.\<close>

fun check_rate_limit_seq ::
  "Settings \<Rightarrow> AuthContext \<Rightarrow> int list \<Rightarrow> RateLimits
     \<Rightarrow> (Error + int \<times> int \<times> int) list \<times> RateLimits" where
  "check_rate_limit_seq settings auth [] rl = ([], rl)"
| "check_rate_limit_seq settings auth (now # nows) rl =
     (let (r, rl1) = check_rate_limit settings now auth rl;
          (rs, rl2) = check_rate_limit_seq settings auth nows rl1
      in (r # rs, rl2))"

text \<open>The store holds no window of the minute \<open>w\<close> for this credential.\<close>

definition fresh_window :: "RateLimits \<Rightarrow> string \<Rightarrow> int \<Rightarrow> bool" where
  "fresh_window rl k w =
     (case rl k of None \<Rightarrow> True | Some win \<Rightarrow> window_start win \<noteq> w * 60)"

section \<open>Webhook signatures (sdks/python/golden\_codex/webhooks.py)\<close>

text \<open>
  Python's \<open>str(int)\<close> and \<open>int(str)\<close> on byte strings: \<open>int\<close> strips white space,
  takes one sign, then decimal digits with single underscores between them. (CPython's
  limit of 4300 digits on both conversions is left out: a Unix time has ten.)
\<close>

fun str_nat :: "nat \<Rightarrow> string" where
  "str_nat n =
     (if n < 10 then [char_of (48 + n)]
      else str_nat (n div 10) @ [char_of (48 + n mod 10)])"

definition str_int :: "int \<Rightarrow> string" where
  "str_int i = (if i < 0 then CHR ''-'' # str_nat (nat (- i)) else str_nat (nat i))"

definition is_space :: "char \<Rightarrow> bool" where
  "is_space c = ((of_char c :: nat) \<in> set [32, 9, 10, 11, 12, 13, 28, 29, 30, 31, 133, 160])"

definition is_digit :: "char \<Rightarrow> bool" where
  "is_digit c = (48 \<le> (of_char c :: nat) \<and> (of_char c :: nat) \<le> 57)"

definition digit_val :: "char \<Rightarrow> nat" where
  "digit_val c = of_char c - 48"

definition strip :: "string \<Rightarrow> string" where
  "strip s = rev (dropWhile is_space (rev (dropWhile is_space s)))"

fun digits_from :: "nat \<Rightarrow> string \<Rightarrow> nat option" where
  "digits_from acc [] = Some acc"
| "digits_from acc (c # cs) =
     (if is_digit c then digits_from (acc * 10 + digit_val c) cs
      else if c = CHR ''_'' then
        (case cs of
           [] \<Rightarrow> None
         | d # ds \<Rightarrow> if is_digit d then digits_from (acc * 10 + digit_val d) ds else None)
      else None)"

definition parse_nat :: "string \<Rightarrow> nat option" where
  "parse_nat s =
     (case s of
        [] \<Rightarrow> None
      | c # cs \<Rightarrow> if is_digit c then digits_from (digit_val c) cs else None)"

definition parse_int :: "string \<Rightarrow> int option" where
  "parse_int s =
     (case strip s of
        [] \<Rightarrow> None
      | c # cs \<Rightarrow>
          if c = CHR ''-'' then map_option (\<lambda>n. - int n) (parse_nat cs)
          else if c = CHR ''+'' then map_option int (parse_nat cs)
          else map_option int (parse_nat (c # cs)))"

text \<open>\<open>s.split(",")\<close> for a one-character separator.\<close>

fun split_on :: "char \<Rightarrow> string \<Rightarrow> string list" where
  "split_on sep [] = [[]]"
| "split_on sep (c # cs) =
     (if c = sep then [] # split_on sep cs
      else (case split_on sep cs of
              [] \<Rightarrow> [[c]]
            | p # ps \<Rightarrow> (c # p) # ps))"

text \<open>\<open>part.split("=", 1)\<close>, taken only when \<open>"=" in part\<close>.\<close>

definition split_key_value :: "string \<Rightarrow> (string \<times> string) option" where
  "split_key_value part =
     (if CHR ''='' \<in> set part
      then Some (takeWhile (\<lambda>c. c \<noteq> CHR ''='') part,
                 tl (dropWhile (\<lambda>c. c \<noteq> CHR ''='') part))
      else None)"

definition parse_signature :: "string \<Rightarrow> (string \<times> string) list" where
  "parse_signature signature =
     fold (\<lambda>part parts. case split_key_value part of
                           None \<Rightarrow> parts
                         | Some (k, v) \<Rightarrow> AList.update k v parts)
       (split_on (CHR '','') signature) []"

text \<open>
  \<open>hmac.compare_digest\<close> on two \<open>str\<close> values: a \<open>TypeError\<close> unless both are ASCII,
  their equality otherwise.
\<close>

definition is_ascii :: "string \<Rightarrow> bool" where
  "is_ascii s = list_all (\<lambda>c. (of_char c :: nat) < 128) s"

definition compare_digest :: "string \<Rightarrow> string \<Rightarrow> Error + bool" where
  "compare_digest a b = (if is_ascii a \<and> is_ascii b then Inr (a = b) else Inl TypeError)"

text \<open>The text that is signed: \<open>f"{timestamp}.{payload}"\<close>.\<close>

definition signed_message :: "int \<Rightarrow> string \<Rightarrow> string" where
  "signed_message timestamp payload = str_int timestamp @ ''.'' @ payload"

text \<open>
  \<open>hmac.new(key, msg, hashlib.sha256).hexdigest()\<close> belongs to Python's library, not to
  this repository: it is the argument \<open>mac\<close>, from key and message to the digest in
  hexadecimal. \<open>hex_digest_ok\<close> says what a SHA-256 hex digest looks like.
\<close>

definition is_hex :: "char \<Rightarrow> bool" where
  "is_hex c = (c \<in> set ''0123456789abcdef'')"

definition hex_digest_ok :: "string \<Rightarrow> bool" where
  "hex_digest_ok h = (length h = 64 \<and> list_all is_hex h)"

definition verify_webhook_signature ::
  "(string \<Rightarrow> string \<Rightarrow> string) \<Rightarrow> int \<Rightarrow> string \<Rightarrow> string \<Rightarrow> string \<Rightarrow> int \<Rightarrow> Error + bool" where
  "verify_webhook_signature mac now payload signature secret max_age =
     (if signature = [] then Inr False
      else
        (let parts = parse_signature signature;
             timestamp_str = map_of parts ''t'';
             hash_value = map_of parts ''v1''
         in case timestamp_str of
              None \<Rightarrow> Inr False
            | Some ts \<Rightarrow>
                (case hash_value of
                   None \<Rightarrow> Inr False
                 | Some hv \<Rightarrow>
                     if ts = [] \<or> hv = [] then Inr False
                     else
                       (case parse_int ts of
                          None \<Rightarrow> Inr False
                        | Some timestamp \<Rightarrow>
                            if \<bar>now - timestamp\<bar> > max_age then Inr False
                            else compare_digest hv
                                   (mac secret (signed_message timestamp payload))))))"

definition generate_webhook_signature ::
  "(string \<Rightarrow> string \<Rightarrow> string) \<Rightarrow> int \<Rightarrow> string \<Rightarrow> string \<Rightarrow> int option \<Rightarrow> string" where
  "generate_webhook_signature mac now payload secret timestamp0 =
     (let timestamp = (case timestamp0 of None \<Rightarrow> now | Some t \<Rightarrow> t);
          hash_value = mac secret (signed_message timestamp payload)
      in ''t='' @ str_int timestamp @ '',v1='' @ hash_value)"

section \<open>Concrete scenarios\<close>

text \<open>The flux model choices that are charged the high price \<open>cost_flux_4x\<close>.\<close>

definition high_price_models :: "Settings \<Rightarrow> string list" where
  "high_price_models settings =
     filter (\<lambda>m. flux_price settings m = cost_flux_4x settings) flux_models"

text \<open>
  A legacy account, the kind the fallback to \<open>credits_available\<close> is written for:
  no \<open>tokens.balance\<close> yet, 4 credits in the old field (the price of one job with all
  three stages at the default prices).
\<close>

definition legacy_world :: World where
  "legacy_world =
     \<lparr>users = [(''u1'', \<lparr>tokens_balance = None, tokens_totalSpent = 0,
                 credits_available = Some 4, tokenTransactions = []\<rparr>)],
      api_jobs = [], outbox = []\<rparr>"

text \<open>Agents that all answer, and agents whose upscaler is down.\<close>

definition ok_agents :: Agents where
  "ok_agents =
     \<lparr>nova_agent = (\<lambda>req. Inr (Some [(''title'', ''Untitled'')])),
      flux_agent = (\<lambda>req. Inr (Some ''https://cdn.example/up.png'')),
      atlas_agent = (\<lambda>req. Inr (Some ''https://cdn.example/final.png''))\<rparr>"

definition flux_down_agents :: Agents where
  "flux_down_agents = ok_agents\<lparr>flux_agent := (\<lambda>req. Inl ''503 Service Unavailable'')\<rparr>"

text \<open>One account with plenty of tokens, one with a single token; no jobs yet.\<close>

definition rich_world :: World where
  "rich_world =
     \<lparr>users = [(''u1'', \<lparr>tokens_balance = Some 100, tokens_totalSpent = 0,
                 credits_available = None, tokenTransactions = []\<rparr>)],
      api_jobs = [], outbox = []\<rparr>"

definition poor_world :: World where
  "poor_world =
     \<lparr>users = [(''u1'', \<lparr>tokens_balance = Some 1, tokens_totalSpent = 0,
                 credits_available = None, tokenTransactions = []\<rparr>)],
      api_jobs = [], outbox = []\<rparr>"

text \<open>
  A world in which the rich account has created one job, still pending: 4 tokens were
  deducted for the three stages at the default prices.
\<close>

definition job_a :: JobDoc where
  "job_a = new_job_data default_settings 1000 ''job_a'' ''u1'' ''key_1''
             ''https://img.example/a.png'' [NOVA, FLUX, ATLAS] None
             (Some ''https://hooks.example/cb'') None (Some ''req-1'') False"

definition pending_world :: World where
  "pending_world =
     \<lparr>users = [(''u1'', \<lparr>tokens_balance = Some 96, tokens_totalSpent = 4,
                 credits_available = None,
                 tokenTransactions =
                   [\<lparr>tx_type = ''deduction'', tx_amount = 4, tx_reason = ''api_job'',
                     tx_job_id = ''job_a'', tx_balance_after = 96, tx_source = ''api''\<rparr>]\<rparr>)],
      api_jobs = [(''job_a'', job_a)], outbox = []\<rparr>"

text \<open>The three conditions under which \<open>cancel_job\<close> goes past its early returns.\<close>

definition cancellable :: "string \<Rightarrow> string \<Rightarrow> World \<Rightarrow> bool" where
  "cancellable jid uid s =
     (case map_of (api_jobs s) jid of
        None \<Rightarrow> False
      | Some j \<Rightarrow> user_id j = uid \<and> status j = PENDING)"

text \<open>
  The rich account creates a job for all three stages while the upscaler is down.
\<close>

definition flux_failure_run :: "(Error + CreateResult) \<times> World" where
  "flux_failure_run =
     create_job default_settings flux_down_agents 1000 ''job_a'' ''u1'' ''key_1''
       ''https://img.example/a.png'' [NOVA, FLUX, ATLAS] None None None (Some ''req-1'')
       False rich_world"

text \<open>
  Two creations in a row with the empty string as \<open>X-Request-Id\<close>, by the rich
  account, all agents answering.
\<close>

definition empty_key_first :: "(Error + CreateResult) \<times> World" where
  "empty_key_first =
     create_job default_settings ok_agents 1000 ''job_a'' ''u1'' ''key_1''
       ''https://img.example/a.png'' [NOVA, FLUX, ATLAS] None None None (Some [])
       False rich_world"

definition empty_key_second :: "(Error + CreateResult) \<times> World" where
  "empty_key_second =
     create_job default_settings ok_agents 1001 ''job_b'' ''u1'' ''key_1''
       ''https://img.example/a.png'' [NOVA, FLUX, ATLAS] None None None (Some [])
       False (snd empty_key_first)"

text \<open>How many deduction records an account's audit trail holds.\<close>

definition deductions :: "string \<Rightarrow> World \<Rightarrow> nat" where
  "deductions uid s =
     (case map_of (users s) uid of
        None \<Rightarrow> 0
      | Some u \<Rightarrow> length (filter (\<lambda>t. tx_type t = ''deduction'') (tokenTransactions u)))"

text \<open>
  Two creations in a row with the key \<open>req-1\<close>, by the rich account, all agents
  answering.
\<close>

definition keyed_first :: "(Error + CreateResult) \<times> World" where
  "keyed_first =
     create_job default_settings ok_agents 1000 ''job_a'' ''u1'' ''key_1''
       ''https://img.example/a.png'' [NOVA, FLUX, ATLAS] None None None (Some ''req-1'')
       False rich_world"

definition keyed_second :: "(Error + CreateResult) \<times> World" where
  "keyed_second =
     create_job default_settings ok_agents 1001 ''job_b'' ''u1'' ''key_1''
       ''https://img.example/a.png'' [NOVA, FLUX, ATLAS] None None None (Some ''req-1'')
       False (snd keyed_first)"

text \<open>How many requests of the minute \<open>w\<close> the store has counted for a credential.\<close>

definition window_count :: "RateLimits \<Rightarrow> string \<Rightarrow> int \<Rightarrow> int" where
  "window_count rl k w =
     (case rl k of
        None \<Rightarrow> 0
      | Some win \<Rightarrow> if window_start win = w * 60 then count win else 0)"

text \<open>A free-trial credential, and settings that allow it two requests a minute.\<close>

definition trial_auth :: AuthContext where
  "trial_auth =
     \<lparr>auth_user_id = ''u1'', key_id = ''key_1'', auth_tier = FREE_TRIAL, balance = 100,
      auth_is_test_mode = False, permissions = []\<rparr>"

definition tight_settings :: Settings where
  "tight_settings = default_settings\<lparr>rate_limit_free := 2\<rparr>"

text \<open>
  Views of the job store used to say what an operation leaves alone: a job document
  without its per-stage progress entries, the identity of a job document, and the store
  with every document replaced by a view of it.
\<close>

definition job_core :: "JobDoc \<Rightarrow> JobDoc" where
  "job_core j = j\<lparr>progress_nova := None, progress_flux := None, progress_atlas := None\<rparr>"

definition job_identity :: "JobDoc \<Rightarrow> string \<times> string \<times> string option" where
  "job_identity j = (job_id j, user_id j, request_id j)"

definition proj_jobs :: "(JobDoc \<Rightarrow> 'a) \<Rightarrow> World \<Rightarrow> (string \<times> 'a) list" where
  "proj_jobs p s = map (\<lambda>kj. (fst kj, p (snd kj))) (api_jobs s)"

text \<open>The \<open>error\<close> field written by the handler of \<open>trigger_pipeline\<close>.\<close>

definition pipeline_error :: "string \<Rightarrow> ErrorData" where
  "pipeline_error e = \<lparr>code = ''pipeline_error'', message = e, retryable = True\<rparr>"

text \<open>What \<open>tokens.get("balance", 0)\<close> reads from a user document.\<close>

definition stored_balance :: "UserDoc \<Rightarrow> int" where
  "stored_balance u = (case tokens_balance u of None \<Rightarrow> 0 | Some b \<Rightarrow> b)"

section \<open>Properties of the cost table\<close>

lemma calculate_cost_total:
  "fst (calculate_cost settings ops opts0) =
     (let opts1 = (case opts0 of None \<Rightarrow> default_options | Some opts \<Rightarrow> opts) in
      (if NOVA \<in> set ops then fst (nova_cost settings opts1) else 0) +
      (if FLUX \<in> set ops then fst (flux_cost settings opts1) else 0) +
      (if ATLAS \<in> set ops then cost_atlas settings else 0))"
  by (simp add: calculate_cost_def Let_def split_beta)

lemma calculate_cost_breakdown_keys:
  "map fst (snd (calculate_cost settings ops opts0)) =
     (if NOVA \<in> set ops then [''nova''] else []) @
     (if FLUX \<in> set ops then [''flux''] else []) @
     (if ATLAS \<in> set ops then [''atlas''] else [])"
  by (simp add: calculate_cost_def Let_def split_beta)

lemma calculate_cost_breakdown_nova:
  "breakdown_cost (snd (calculate_cost settings ops opts0)) ''nova'' =
     (if NOVA \<in> set ops
      then fst (nova_cost settings (case opts0 of None \<Rightarrow> default_options | Some opts \<Rightarrow> opts))
      else 0)"
  by (simp add: calculate_cost_def breakdown_cost_def Let_def split_beta)

lemma calculate_cost_breakdown_flux:
  "breakdown_cost (snd (calculate_cost settings ops opts0)) ''flux'' =
     (if FLUX \<in> set ops
      then fst (flux_cost settings (case opts0 of None \<Rightarrow> default_options | Some opts \<Rightarrow> opts))
      else 0)"
  by (simp add: calculate_cost_def breakdown_cost_def Let_def split_beta)

lemma calculate_cost_breakdown_atlas:
  "breakdown_cost (snd (calculate_cost settings ops opts0)) ''atlas'' =
     (if ATLAS \<in> set ops then cost_atlas settings else 0)"
  by (simp add: calculate_cost_def breakdown_cost_def Let_def split_beta)

lemma calculate_cost_nonneg:
  assumes "0 \<le> cost_nova_standard settings" "0 \<le> cost_nova_full settings"
    "0 \<le> cost_flux_2x settings" "0 \<le> cost_flux_4x settings" "0 \<le> cost_atlas settings"
  shows "0 \<le> fst (calculate_cost settings ops opts0)"
  using assms
  by (simp add: calculate_cost_total nova_cost_def flux_cost_def Let_def split: option.splits)

text \<open>
  C6 (as the code has it): the cost is a function of the settings, the requested
  operations and the options alone. Stage A costs the standard price, or the full price
  for the tier \<open>full_gcx\<close>; stage B costs the low price for the model \<open>2x\<close> and the
  high price for each of the three models \<open>4x\<close>, \<open>anime\<close> and \<open>photo\<close>; stage C has
  one fixed price. The total is the sum over the requested stages, equals the sum of the
  costs in the breakdown, and the breakdown has one entry per requested stage.
\<close>

theorem calculate_cost_table:
  "map (nova_price settings) nova_tiers = [cost_nova_standard settings, cost_nova_full settings]
   \<and> map (flux_price settings) flux_models =
       [cost_flux_2x settings, cost_flux_4x settings, cost_flux_4x settings,
        cost_flux_4x settings]
   \<and> fst (calculate_cost settings ops opts0) =
       (let opts1 = (case opts0 of None \<Rightarrow> default_options | Some opts \<Rightarrow> opts) in
        (if NOVA \<in> set ops then fst (nova_cost settings opts1) else 0) +
        (if FLUX \<in> set ops then fst (flux_cost settings opts1) else 0) +
        (if ATLAS \<in> set ops then cost_atlas settings else 0))
   \<and> fst (calculate_cost settings ops opts0) =
       breakdown_cost (snd (calculate_cost settings ops opts0)) ''nova'' +
       breakdown_cost (snd (calculate_cost settings ops opts0)) ''flux'' +
       breakdown_cost (snd (calculate_cost settings ops opts0)) ''atlas''
   \<and> map fst (snd (calculate_cost settings ops opts0)) =
       (if NOVA \<in> set ops then [''nova''] else []) @
       (if FLUX \<in> set ops then [''flux''] else []) @
       (if ATLAS \<in> set ops then [''atlas''] else [])"
proof -
  have tiers: "map (nova_price settings) nova_tiers =
      [cost_nova_standard settings, cost_nova_full settings]"
    by (simp add: nova_tiers_def nova_price_def nova_cost_def default_options_def)
  have models: "map (flux_price settings) flux_models =
      [cost_flux_2x settings, cost_flux_4x settings, cost_flux_4x settings,
       cost_flux_4x settings]"
    by (simp add: flux_models_def flux_price_def flux_cost_def default_options_def)
  have sum_breakdown: "fst (calculate_cost settings ops opts0) =
       breakdown_cost (snd (calculate_cost settings ops opts0)) ''nova'' +
       breakdown_cost (snd (calculate_cost settings ops opts0)) ''flux'' +
       breakdown_cost (snd (calculate_cost settings ops opts0)) ''atlas''"
    by (simp add: calculate_cost_total calculate_cost_breakdown_nova
        calculate_cost_breakdown_flux calculate_cost_breakdown_atlas Let_def)
  show ?thesis
    using tiers models sum_breakdown calculate_cost_total [of settings ops opts0]
      calculate_cost_breakdown_keys [of settings ops opts0]
    by simp
qed

text \<open>
  C6 as the specification words it, "two of four model choices map to high", fails: with
  the default prices three of the four models cost \<open>cost_flux_4x\<close>.
\<close>

theorem flux_high_price_models_counterexample:
  "high_price_models default_settings = [''4x'', ''anime'', ''photo''] \<and>
   length (high_price_models default_settings) \<noteq> 2"
  by (simp add: high_price_models_def flux_models_def flux_price_def flux_cost_def
      default_settings_def default_options_def)

section \<open>Properties of the ledger\<close>

lemma observed_no_legacy:
  assumes "no_legacy_credits uid s" and "map_of (users s) uid = Some u"
  shows "observed_balance uid s = stored_balance u"
  using assms
  by (auto simp: no_legacy_credits_def observed_balance_def check_balance_def stored_balance_def
      split: option.splits)

lemma deduct_no_legacy:
  assumes "no_legacy_credits uid s" and "map_of (users s) uid = Some u"
  shows "deduct_tokens uid amount reason jid s =
     (if stored_balance u < amount
      then (Inl (HTTP_402_insufficient_credits (stored_balance u) amount), s)
      else (Inr (stored_balance u - amount),
            s\<lparr>users := AList.update uid
               (u\<lparr>tokens_balance := Some (stored_balance u - amount),
                  tokens_totalSpent := tokens_totalSpent u + amount,
                  tokenTransactions := tokenTransactions u @
                    [\<lparr>tx_type = ''deduction'', tx_amount = amount, tx_reason = reason,
                      tx_job_id = jid, tx_balance_after = stored_balance u - amount,
                      tx_source = ''api''\<rparr>]\<rparr>) (users s)\<rparr>))"
proof -
  have c: "(case credits_available u of None \<Rightarrow> 0 | Some c \<Rightarrow> c) = 0"
    using assms by (auto simp: no_legacy_credits_def)
  show ?thesis
    using assms(2) c by (simp add: deduct_tokens_def stored_balance_def Let_def)
qed

lemma deduct_conserves:
  assumes "no_legacy_credits uid s"
  shows "observed_balance uid s - observed_balance uid (snd (deduct_tokens uid amount reason jid s)) =
         (charged_total uid jid (snd (deduct_tokens uid amount reason jid s)) - charged_total uid jid s) -
         (refunded_total uid jid (snd (deduct_tokens uid amount reason jid s)) - refunded_total uid jid s)
         \<and> no_legacy_credits uid (snd (deduct_tokens uid amount reason jid s))"
proof (cases "map_of (users s) uid")
  case None
  then show ?thesis using assms by (simp add: deduct_tokens_def)
next
  case (Some u)
  show ?thesis
  proof (cases "stored_balance u < amount")
    case True
    then show ?thesis using assms Some by (simp add: deduct_no_legacy)
  next
    case False
    let ?u' = "u\<lparr>tokens_balance := Some (stored_balance u - amount),
                  tokens_totalSpent := tokens_totalSpent u + amount,
                  tokenTransactions := tokenTransactions u @
                    [\<lparr>tx_type = ''deduction'', tx_amount = amount, tx_reason = reason,
                      tx_job_id = jid, tx_balance_after = stored_balance u - amount,
                      tx_source = ''api''\<rparr>]\<rparr>"
    let ?s' = "s\<lparr>users := AList.update uid ?u' (users s)\<rparr>"
    have s': "snd (deduct_tokens uid amount reason jid s) = ?s'"
      using False by (simp add: deduct_no_legacy [OF assms Some])
    have m': "map_of (users ?s') uid = Some ?u'"
      by (simp add: update_conv')
    have nl: "no_legacy_credits uid ?s'"
      using assms Some by (simp add: no_legacy_credits_def update_conv')
    have ob: "observed_balance uid ?s' = stored_balance u - amount"
      using observed_no_legacy [OF nl m'] by (simp add: stored_balance_def)
    have ch: "charged_total uid jid ?s' = charged_total uid jid s + amount"
      using Some by (simp add: charged_total_def tx_total_def update_conv')
    have rf: "refunded_total uid jid ?s' = refunded_total uid jid s"
      using Some by (simp add: refunded_total_def tx_total_def update_conv')
    show ?thesis
      unfolding s' using nl ob ch rf observed_no_legacy [OF assms Some] by simp
  qed
qed

lemma refund_conserves:
  assumes "no_legacy_credits uid s"
  shows "observed_balance uid s - observed_balance uid (snd (refund_tokens uid amount reason jid s)) =
         (charged_total uid jid (snd (refund_tokens uid amount reason jid s)) - charged_total uid jid s) -
         (refunded_total uid jid (snd (refund_tokens uid amount reason jid s)) - refunded_total uid jid s)
         \<and> no_legacy_credits uid (snd (refund_tokens uid amount reason jid s))"
proof (cases "map_of (users s) uid")
  case None
  then show ?thesis using assms by (simp add: refund_tokens_def)
next
  case (Some u)
  let ?u' = "u\<lparr>tokens_balance := Some (stored_balance u + amount),
                tokens_totalSpent := tokens_totalSpent u + (- amount),
                tokenTransactions := tokenTransactions u @
                  [\<lparr>tx_type = ''refund'', tx_amount = amount, tx_reason = reason,
                    tx_job_id = jid, tx_balance_after = stored_balance u + amount,
                    tx_source = ''api''\<rparr>]\<rparr>"
  let ?s' = "s\<lparr>users := AList.update uid ?u' (users s)\<rparr>"
  have s': "snd (refund_tokens uid amount reason jid s) = ?s'"
    using Some by (simp add: refund_tokens_def stored_balance_def Let_def)
  have m': "map_of (users ?s') uid = Some ?u'"
    by (simp add: update_conv')
  have nl: "no_legacy_credits uid ?s'"
    using assms Some by (simp add: no_legacy_credits_def update_conv')
  have ob: "observed_balance uid ?s' = stored_balance u + amount"
    using observed_no_legacy [OF nl m'] by (simp add: stored_balance_def)
  have ch: "charged_total uid jid ?s' = charged_total uid jid s"
    using Some by (simp add: charged_total_def tx_total_def update_conv')
  have rf: "refunded_total uid jid ?s' = refunded_total uid jid s + amount"
    using Some by (simp add: refunded_total_def tx_total_def update_conv')
  show ?thesis
    unfolding s' using nl ob ch rf observed_no_legacy [OF assms Some] by simp
qed

text \<open>
  For an account without legacy credits the ledger is conservative over every job
  history: what \<open>check_balance\<close> reports falls by the charged total less the refunded
  total.
\<close>

lemma history_conserves:
  "no_legacy_credits uid s \<Longrightarrow>
   observed_balance uid s - observed_balance uid (run_history uid jid xs s) =
     (charged_total uid jid (run_history uid jid xs s) - charged_total uid jid s) -
     (refunded_total uid jid (run_history uid jid xs s) - refunded_total uid jid s)"
proof (induction xs arbitrary: s)
  case Nil
  then show ?case by simp
next
  case (Cons x xs)
  let ?s1 = "apply_ledger_op uid jid x s"
  have step: "observed_balance uid s - observed_balance uid ?s1 =
         (charged_total uid jid ?s1 - charged_total uid jid s) -
         (refunded_total uid jid ?s1 - refunded_total uid jid s)
         \<and> no_legacy_credits uid ?s1"
    using Cons.prems deduct_conserves [of uid s] refund_conserves [of uid s]
    by (cases x) simp_all
  from Cons.IH [of ?s1] step show ?case by simp
qed

text \<open>
  C3: ledger conservation, measured by what \<open>check_balance\<close> reports, is broken by the
  fallback to \<open>credits_available\<close>. The account of \<open>legacy_world\<close> is seen with 4
  credits; deducting 4 succeeds, returns the new balance 0 and stores it, and
  \<open>check_balance\<close> then replaces the stored 0 by the legacy 4 again. Before minus
  after is 0, charged minus refunded is 4; and the same 4 credits pay for a second job.
\<close>

theorem ledger_conservation_broken_by_legacy_fallback:
  "observed_balance ''u1'' legacy_world = 4 \<and>
   fst (deduct_tokens ''u1'' 4 ''api_job'' ''job_1'' legacy_world) = Inr 0 \<and>
   observed_balance ''u1'' (run_history ''u1'' ''job_1'' [Deduct 4] legacy_world) = 4 \<and>
   charged_total ''u1'' ''job_1'' (run_history ''u1'' ''job_1'' [Deduct 4] legacy_world) = 4 \<and>
   refunded_total ''u1'' ''job_1'' (run_history ''u1'' ''job_1'' [Deduct 4] legacy_world) = 0 \<and>
   fst (deduct_tokens ''u1'' 4 ''api_job'' ''job_2''
          (run_history ''u1'' ''job_1'' [Deduct 4] legacy_world)) = Inr 0"
  by (simp add: observed_balance_def check_balance_def deduct_tokens_def legacy_world_def
      charged_total_def refunded_total_def tx_total_def)

section \<open>Creating a job without funds\<close>

lemma deduct_tokens_insufficient:
  assumes "fst (deduct_tokens uid amount reason jid s) = Inl (HTTP_402_insufficient_credits bal req)"
  shows "deduct_tokens uid amount reason jid s = (Inl (HTTP_402_insufficient_credits bal req), s)
        \<and> bal = observed_balance uid s \<and> req = amount \<and> bal < amount"
proof (cases "map_of (users s) uid")
  case None
  then show ?thesis using assms by (simp add: deduct_tokens_def)
next
  case (Some u)
  then show ?thesis using assms
    by (simp add: deduct_tokens_def observed_balance_def check_balance_def Let_def
        split: if_splits)
qed

text \<open>
  C1: when \<open>deduct_tokens\<close> raises \<open>insufficient_credits\<close>, the balance it reports is
  the one \<open>check_balance\<close> sees and is below the amount, and the whole state (balances,
  transaction records, jobs, calls sent) is returned as it was. In \<open>create_job\<close>, once
  the idempotency check has found nothing, that error is the result and the state is
  still the one before the call: no job document has been written and no agent or
  webhook has been called.
\<close>

theorem insufficient_funds_mutates_nothing:
  assumes "fst (deduct_tokens uid amount reason jid s) = Inl (HTTP_402_insufficient_credits bal req)"
  shows "snd (deduct_tokens uid amount reason jid s) = s \<and>
         bal = observed_balance uid s \<and> req = amount \<and> bal < amount \<and>
         (existing_job uid rid s = None \<and> amount = fst (calculate_cost settings ops opts) \<and>
            reason = ''api_job'' \<longrightarrow>
          create_job settings agents now jid uid akid img ops opts wh cm rid test s =
            (Inl (HTTP_402_insufficient_credits bal req), s))"
proof -
  note d = deduct_tokens_insufficient [OF assms]
  have "create_job settings agents now jid uid akid img ops opts wh cm rid test s =
            (Inl (HTTP_402_insufficient_credits bal req), s)"
    if "existing_job uid rid s = None" "amount = fst (calculate_cost settings ops opts)"
       "reason = ''api_job''"
    using that d by (simp add: create_job_def Let_def)
  with d show ?thesis by simp
qed

theorem insufficient_funds_mutates_nothing_witness:
  "fst (deduct_tokens ''u1'' 4 ''api_job'' ''job_a'' poor_world) =
     Inl (HTTP_402_insufficient_credits 1 4)
   \<and> existing_job ''u1'' (Some ''req-1'') poor_world = None
   \<and> fst (calculate_cost default_settings [NOVA, FLUX, ATLAS] None) = 4
   \<and> snd (deduct_tokens ''u1'' 4 ''api_job'' ''job_a'' poor_world) = poor_world
   \<and> create_job default_settings ok_agents 1000 ''job_a'' ''u1'' ''key_1''
        ''https://img.example/a.png'' [NOVA, FLUX, ATLAS] None None None (Some ''req-1'')
        False poor_world =
       (Inl (HTTP_402_insufficient_credits 1 4), poor_world)"
proof -
  have h: "fst (deduct_tokens ''u1'' 4 ''api_job'' ''job_a'' poor_world) =
      Inl (HTTP_402_insufficient_credits 1 4)"
    by (simp add: deduct_tokens_def poor_world_def)
  have e: "existing_job ''u1'' (Some ''req-1'') poor_world = None"
    by (simp add: existing_job_def find_existing_def poor_world_def)
  have c: "fst (calculate_cost default_settings [NOVA, FLUX, ATLAS] None) = 4"
    by (simp add: calculate_cost_total default_settings_def default_options_def
        nova_cost_def flux_cost_def)
  from insufficient_funds_mutates_nothing [OF h, of "Some ''req-1''" default_settings
      "[NOVA, FLUX, ATLAS]" None ok_agents 1000 "''key_1''" "''https://img.example/a.png''"
      None None False] h e c
  show ?thesis by simp
qed

section \<open>The create endpoint reads a key the service never writes\<close>

lemma create_job_cost_keys:
  assumes "fst (create_job settings agents now jid uid akid img ops opts wh cm rid test s) = Inr r"
  shows "map fst (r_cost r) = [''estimated_aet'']"
proof (cases "existing_job uid rid s")
  case (Some e)
  then show ?thesis using assms by (auto simp: create_job_def Let_def)
next
  case None
  then show ?thesis using assms
    by (auto simp: create_job_def Let_def split: prod.splits sum.splits)
qed

lemma create_job_endpoint_key_error:
  assumes "fst (create_job settings agents now jid uid akid img ops opts
             (case wh of None \<Rightarrow> None | Some w \<Rightarrow> if w = [] then None else Some w)
             cm rid test s) = Inr r"
  shows "fst (create_job_endpoint settings agents now jid uid akid img ops opts wh cm rid test s)
         = Inl (KeyError ''estimated_gcx'')"
proof -
  from create_job_cost_keys [OF assms] have "map_of (r_cost r) ''estimated_gcx'' = None"
    by (cases "r_cost r") auto
  moreover obtain s' where "create_job settings agents now jid uid akid img ops opts
             (case wh of None \<Rightarrow> None | Some w \<Rightarrow> if w = [] then None else Some w)
             cm rid test s = (Inr r, s')"
    using assms by (metis prod.collapse)
  ultimately show ?thesis
    by (simp add: create_job_endpoint_def)
qed

text \<open>
  C10: the dictionary \<open>create_job\<close> returns has the key \<open>estimated_aet\<close> under
  \<open>cost\<close>, on a fresh creation and on a replay alike, and never \<open>estimated_gcx\<close>; the
  endpoint's lookup \<open>result["cost"]["estimated_gcx"]\<close> raises \<open>KeyError\<close> after every
  successful run of the service. Here: a fresh creation in \<open>rich_world\<close> and a replay
  of \<open>req-1\<close> in \<open>pending_world\<close>.
\<close>

theorem create_endpoint_key_error:
  "map_sum id r_cost (fst (create_job default_settings ok_agents 1000 ''job_a'' ''u1'' ''key_1''
        ''https://img.example/a.png'' [NOVA, FLUX, ATLAS] None None None (Some ''req-1'')
        False rich_world)) = Inr [(''estimated_aet'', 4)]
  \<and> fst (create_job_endpoint default_settings ok_agents 1000 ''job_a'' ''u1'' ''key_1''
        ''https://img.example/a.png'' [NOVA, FLUX, ATLAS] None None None (Some ''req-1'')
        False rich_world) = Inl (KeyError ''estimated_gcx'')
  \<and> map_sum id r_cost (fst (create_job default_settings ok_agents 2000 ''job_b'' ''u1'' ''key_1''
        ''https://img.example/a.png'' [NOVA, FLUX, ATLAS] None None None (Some ''req-1'')
        False pending_world)) = Inr [(''estimated_aet'', 4)]
  \<and> fst (create_job_endpoint default_settings ok_agents 2000 ''job_b'' ''u1'' ''key_1''
        ''https://img.example/a.png'' [NOVA, FLUX, ATLAS] None None None (Some ''req-1'')
        False pending_world) = Inl (KeyError ''estimated_gcx'')"
  by (simp add: create_job_endpoint_def create_job_def existing_job_def find_existing_def rich_world_def
      pending_world_def job_a_def new_job_data_def
    calculate_cost_total default_settings_def default_options_def
        nova_cost_def flux_cost_def deduct_tokens_def trigger_pipeline_def Let_def
      split: prod.splits sum.splits)

section \<open>Frame lemmas for the job store\<close>

lemma map_of_update_job:
  "map_of (api_jobs (update_job jid f s)) k =
     (if k = jid then map_option f (map_of (api_jobs s) jid) else map_of (api_jobs s) k)"
  by (simp add: update_job_def update_conv' split: option.splits)

lemma users_update_job: "users (update_job jid f s) = users s"
  by (simp add: update_job_def split: option.splits)

lemma outbox_update_job: "outbox (update_job jid f s) = outbox s"
  by (simp add: update_job_def split: option.splits)

lemma refund_tokens_frame:
  "api_jobs (snd (refund_tokens uid amount reason jid s)) = api_jobs s \<and>
   outbox (snd (refund_tokens uid amount reason jid s)) = outbox s"
  by (simp add: refund_tokens_def Let_def split: option.splits)

lemma refund_tokens_balance:
  "map_of (users s) uid = Some u \<Longrightarrow>
   map_option stored_balance (map_of (users (snd (refund_tokens uid amount reason jid s))) uid) =
     Some (stored_balance u + amount)"
  by (simp add: refund_tokens_def Let_def update_conv' stored_balance_def)

lemma refund_tokens_users_cong:
  "users s = users s' \<Longrightarrow>
   users (snd (refund_tokens uid amount reason jid s)) =
   users (snd (refund_tokens uid amount reason jid s'))"
  by (simp add: refund_tokens_def Let_def split: option.splits)

lemma refund_tokens_users_update_job:
  "users (snd (refund_tokens uid amount reason jid (update_job k f s))) =
   users (snd (refund_tokens uid amount reason jid s))"
  by (rule refund_tokens_users_cong) (simp add: users_update_job)

lemma update_job_twice:
  "update_job jid g (update_job jid f s) = update_job jid (g \<circ> f) s"
  by (simp add: update_job_def update_conv' split: option.splits)

lemma cancel_job_refused:
  "\<not> cancellable jid uid s \<Longrightarrow> cancel_job now jid uid s = (False, s)"
  by (auto simp: cancellable_def cancel_job_def split: option.splits)

lemma cancel_job_done:
  assumes "map_of (api_jobs s) jid = Some j" "user_id j = uid" "status j = PENDING"
  shows "fst (cancel_job now jid uid s) = True"
    and "map_of (api_jobs (snd (cancel_job now jid uid s))) jid =
          Some (j\<lparr>status := CANCELLED, completed_at := Some now,
                 cost_refunded := (if cost_charged j > 0 then cost_charged j else cost_refunded j)\<rparr>)"
    and "users (snd (cancel_job now jid uid s)) =
          (if cost_charged j > 0
           then users (snd (refund_tokens uid (cost_charged j) ''job_cancelled'' jid s))
           else users s)"
    and "outbox (snd (cancel_job now jid uid s)) = outbox s"
  using assms
  by (simp_all add: cancel_job_def Let_def map_of_update_job users_update_job outbox_update_job
      refund_tokens_frame refund_tokens_users_update_job)

section \<open>Cancelling a job\<close>

text \<open>
  C7: \<open>cancel_job\<close> returns true exactly when the job exists, belongs to the caller
  and is pending; otherwise it returns false and the state is unchanged. When it
  succeeds on a job whose cost fields are as \<open>create_job\<close> wrote them (nothing
  refunded yet, a charge that is not negative), the stored job becomes cancelled with
  its completion time set and \<open>cost.refunded\<close> equal to \<open>cost.charged\<close>, and the
  account's stored balance grows by the charge.
\<close>

theorem cancel_job_only_pending_owned:
  "fst (cancel_job now jid uid s) = cancellable jid uid s
   \<and> (\<not> cancellable jid uid s \<longrightarrow> snd (cancel_job now jid uid s) = s)
   \<and> (\<forall>j. map_of (api_jobs s) jid = Some j \<and> user_id j = uid \<and> status j = PENDING \<and>
          cost_refunded j = 0 \<and> 0 \<le> cost_charged j \<longrightarrow>
        map_of (api_jobs (snd (cancel_job now jid uid s))) jid =
          Some (j\<lparr>status := CANCELLED, completed_at := Some now,
                 cost_refunded := cost_charged j\<rparr>)
        \<and> (\<forall>u. map_of (users s) uid = Some u \<longrightarrow>
             map_option stored_balance (map_of (users (snd (cancel_job now jid uid s))) uid) =
               Some (stored_balance u + cost_charged j)))"
proof (intro conjI allI impI)
  show "fst (cancel_job now jid uid s) = cancellable jid uid s"
  proof (cases "cancellable jid uid s")
    case True
    then show ?thesis
      using cancel_job_done(1) [of s jid _ uid now]
      by (auto simp: cancellable_def split: option.splits)
  next
    case False
    then show ?thesis by (simp add: cancel_job_refused)
  qed
next
  assume "\<not> cancellable jid uid s"
  then show "snd (cancel_job now jid uid s) = s" by (simp add: cancel_job_refused)
next
  fix j
  assume a: "map_of (api_jobs s) jid = Some j \<and> user_id j = uid \<and> status j = PENDING \<and>
          cost_refunded j = 0 \<and> 0 \<le> cost_charged j"
  then show "map_of (api_jobs (snd (cancel_job now jid uid s))) jid =
          Some (j\<lparr>status := CANCELLED, completed_at := Some now,
                 cost_refunded := cost_charged j\<rparr>)"
    using cancel_job_done(2) [of s jid j uid now] by (cases "cost_charged j > 0") auto
next
  fix j u
  assume a: "map_of (api_jobs s) jid = Some j \<and> user_id j = uid \<and> status j = PENDING \<and>
          cost_refunded j = 0 \<and> 0 \<le> cost_charged j"
    and u: "map_of (users s) uid = Some u"
  show "map_option stored_balance (map_of (users (snd (cancel_job now jid uid s))) uid) =
               Some (stored_balance u + cost_charged j)"
  proof (cases "cost_charged j > 0")
    case True
    then show ?thesis
      using a u cancel_job_done(3) [of s jid j uid now] by (simp add: refund_tokens_balance)
  next
    case False
    with a have "cost_charged j = 0" by simp
    then show ?thesis
      using a u cancel_job_done(3) [of s jid j uid now] by simp
  qed
qed

theorem cancel_job_only_pending_owned_witness:
  "map_of (api_jobs pending_world) ''job_a'' = Some job_a \<and> user_id job_a = ''u1'' \<and>
   status job_a = PENDING \<and> cost_refunded job_a = 0 \<and> 0 \<le> cost_charged job_a \<and>
   cost_charged job_a = 4 \<and>
   map_of (users pending_world) ''u1'' = Some (snd (hd (users pending_world))) \<and>
   fst (cancel_job 2000 ''job_a'' ''u1'' pending_world) \<and>
   map_of (api_jobs (snd (cancel_job 2000 ''job_a'' ''u1'' pending_world))) ''job_a'' =
     Some (job_a\<lparr>status := CANCELLED, completed_at := Some 2000, cost_refunded := 4\<rparr>) \<and>
   map_option stored_balance (map_of (users (snd (cancel_job 2000 ''job_a'' ''u1'' pending_world))) ''u1'')
     = Some 100 \<and>
   \<not> cancellable ''job_a'' ''u2'' pending_world \<and>
   cancel_job 2000 ''job_a'' ''u2'' pending_world = (False, pending_world)"
proof -
  have j: "map_of (api_jobs pending_world) ''job_a'' = Some job_a"
    by (simp add: pending_world_def)
  have f: "user_id job_a = ''u1'' \<and> status job_a = PENDING \<and> cost_refunded job_a = 0 \<and>
      cost_charged job_a = 4"
    by (simp add: job_a_def new_job_data_def calculate_cost_total default_settings_def
        default_options_def nova_cost_def flux_cost_def)
  have u: "map_of (users pending_world) ''u1'' = Some (snd (hd (users pending_world)))"
    by (simp add: pending_world_def)
  have sb: "stored_balance (snd (hd (users pending_world))) = 96"
    by (simp add: pending_world_def stored_balance_def)
  have c: "cancellable ''job_a'' ''u1'' pending_world"
    using j f by (simp add: cancellable_def)
  have n: "\<not> cancellable ''job_a'' ''u2'' pending_world"
    using j f by (simp add: cancellable_def)
  from cancel_job_only_pending_owned [of 2000 "''job_a''" "''u1''" pending_world] cancel_job_only_pending_owned [of 2000 "''job_a''" "''u2''" pending_world]
    j f u sb c n
  show ?thesis by (auto simp: prod_eq_iff)
qed

section \<open>What the pipeline stages leave alone\<close>

lemma map_update_projection:
  assumes "map_of xs k = Some j" and "p (f j) = p j"
  shows "map (\<lambda>kj. (fst kj, p (snd kj))) (AList.update k (f j) xs) =
         map (\<lambda>kj. (fst kj, p (snd kj))) xs"
  using assms by (induction xs) (auto split: if_splits)

lemma proj_jobs_update_job:
  assumes "\<And>j. p (f j) = p j"
  shows "proj_jobs p (update_job jid f s) = proj_jobs p s"
proof (cases "map_of (api_jobs s) jid")
  case None
  then show ?thesis by (simp add: update_job_def)
next
  case (Some j)
  then show ?thesis
    using map_update_projection [of "api_jobs s" jid j p f] assms
    by (simp add: update_job_def proj_jobs_def)
qed

lemma map_of_map_projection:
  "map_of (map (\<lambda>kj. (fst kj, p (snd kj))) xs) k = map_option p (map_of xs k)"
  by (induction xs) auto

lemma map_of_proj_jobs:
  "map_of (proj_jobs p s) k = map_option p (map_of (api_jobs s) k)"
  by (simp add: proj_jobs_def map_of_map_projection)

lemma proj_jobs_outbox [simp]: "proj_jobs p (s\<lparr>outbox := ob\<rparr>) = proj_jobs p s"
  by (simp add: proj_jobs_def)

lemma proj_jobs_users [simp]: "proj_jobs p (s\<lparr>users := us\<rparr>) = proj_jobs p s"
  by (simp add: proj_jobs_def)

lemma job_core_progress [simp]:
  "job_core (j\<lparr>progress_nova := a\<rparr>) = job_core j"
  "job_core (j\<lparr>progress_flux := b\<rparr>) = job_core j"
  "job_core (j\<lparr>progress_atlas := c\<rparr>) = job_core j"
  by (simp_all add: job_core_def)

text \<open>The stages touch nothing but progress entries and the list of calls sent.\<close>

lemma nova_stage_frame:
  "users (snd (nova_stage settings agents jid ops opts uid acc s)) = users s \<and>
   proj_jobs job_core (snd (nova_stage settings agents jid ops opts uid acc s)) =
     proj_jobs job_core s"
  by (simp add: nova_stage_def Let_def users_update_job proj_jobs_update_job split: sum.splits)

lemma flux_stage_frame:
  "users (snd (flux_stage settings agents jid ops opts uid acc s)) = users s \<and>
   proj_jobs job_core (snd (flux_stage settings agents jid ops opts uid acc s)) =
     proj_jobs job_core s"
  by (simp add: flux_stage_def Let_def users_update_job proj_jobs_update_job split: sum.splits)

lemma atlas_stage_frame:
  "users (snd (atlas_stage settings agents jid ops opts uid acc s)) = users s \<and>
   proj_jobs job_core (snd (atlas_stage settings agents jid ops opts uid acc s)) =
     proj_jobs job_core s"
  by (simp add: atlas_stage_def Let_def users_update_job proj_jobs_update_job split: sum.splits)

text \<open>Whether a stage raises depends on the agents alone, not on the store.\<close>

lemma nova_stage_fst:
  "fst (nova_stage settings agents jid ops opts uid acc s) =
   fst (nova_stage settings agents jid ops opts uid acc s')"
  by (simp add: nova_stage_def Let_def split: sum.splits)

lemma flux_stage_fst:
  "fst (flux_stage settings agents jid ops opts uid acc s) =
   fst (flux_stage settings agents jid ops opts uid acc s')"
  by (simp add: flux_stage_def Let_def split: sum.splits)

lemma atlas_stage_fst:
  "fst (atlas_stage settings agents jid ops opts uid acc s) =
   fst (atlas_stage settings agents jid ops opts uid acc s')"
  by (simp add: atlas_stage_def Let_def split: sum.splits)

lemma run_stages_unfold:
  "run_stages settings agents jid img ops opts uid s =
     (let n = nova_stage settings agents jid ops opts uid
                (\<lparr>urls_original = img, urls_upscaled = None, urls_final = None,
                  golden_codex = None\<rparr>, img) s
      in case fst n of
           Inl e \<Rightarrow> (Inl e, snd n)
         | Inr acc1 \<Rightarrow>
             (let f = flux_stage settings agents jid ops opts uid acc1 (snd n)
              in case fst f of
                   Inl e \<Rightarrow> (Inl e, snd f)
                 | Inr acc2 \<Rightarrow>
                     (let a = atlas_stage settings agents jid ops opts uid acc2 (snd f)
                      in case fst a of
                           Inl e \<Rightarrow> (Inl e, snd a)
                         | Inr acc3 \<Rightarrow> (Inr (fst acc3), snd a))))"
  by (simp add: run_stages_def Let_def split_beta split: sum.split)

lemma run_stages_frame:
  "users (snd (run_stages settings agents jid img ops opts uid s)) = users s \<and>
   proj_jobs job_core (snd (run_stages settings agents jid img ops opts uid s)) =
     proj_jobs job_core s"
  by (simp add: run_stages_unfold Let_def nova_stage_frame flux_stage_frame atlas_stage_frame
      split: sum.splits)

lemma run_stages_fst:
  "fst (run_stages settings agents jid img ops opts uid s) =
   fst (run_stages settings agents jid img ops opts uid s')"
proof -
  define r0 where "r0 = (\<lparr>urls_original = img, urls_upscaled = None, urls_final = None,
                  golden_codex = None\<rparr>, img)"
  define n where "n = nova_stage settings agents jid ops opts uid r0 s"
  define n' where "n' = nova_stage settings agents jid ops opts uid r0 s'"
  have n: "fst n' = fst n"
    unfolding n_def n'_def by (rule nova_stage_fst)
  have l: "run_stages settings agents jid img ops opts uid s =
     (case fst n of
           Inl e \<Rightarrow> (Inl e, snd n)
         | Inr acc1 \<Rightarrow>
             (let f = flux_stage settings agents jid ops opts uid acc1 (snd n)
              in case fst f of
                   Inl e \<Rightarrow> (Inl e, snd f)
                 | Inr acc2 \<Rightarrow>
                     (let a = atlas_stage settings agents jid ops opts uid acc2 (snd f)
                      in case fst a of
                           Inl e \<Rightarrow> (Inl e, snd a)
                         | Inr acc3 \<Rightarrow> (Inr (fst acc3), snd a))))"
    unfolding n_def r0_def run_stages_unfold Let_def ..
  have r: "run_stages settings agents jid img ops opts uid s' =
     (case fst n' of
           Inl e \<Rightarrow> (Inl e, snd n')
         | Inr acc1 \<Rightarrow>
             (let f = flux_stage settings agents jid ops opts uid acc1 (snd n')
              in case fst f of
                   Inl e \<Rightarrow> (Inl e, snd f)
                 | Inr acc2 \<Rightarrow>
                     (let a = atlas_stage settings agents jid ops opts uid acc2 (snd f)
                      in case fst a of
                           Inl e \<Rightarrow> (Inl e, snd a)
                         | Inr acc3 \<Rightarrow> (Inr (fst acc3), snd a))))"
    unfolding n'_def r0_def run_stages_unfold Let_def ..
  show ?thesis
  proof (cases "fst n")
    case (Inl e)
    then show ?thesis using n by (simp add: l r)
  next
    case (Inr acc1)
    define f where "f = flux_stage settings agents jid ops opts uid acc1 (snd n)"
    define f' where "f' = flux_stage settings agents jid ops opts uid acc1 (snd n')"
    have f: "fst f' = fst f"
      unfolding f_def f'_def by (rule flux_stage_fst)
    show ?thesis
    proof (cases "fst f")
      case (Inl e)
      then show ?thesis using n f Inr by (simp add: l r f_def [symmetric] f'_def [symmetric])
    next
      case acc2: (Inr acc2)
      have a: "fst (atlas_stage settings agents jid ops opts uid acc2 (snd f')) =
               fst (atlas_stage settings agents jid ops opts uid acc2 (snd f))"
        by (rule atlas_stage_fst)
      show ?thesis using n f Inr acc2 a
        by (simp add: l r f_def [symmetric] f'_def [symmetric] Let_def split: sum.split)
    qed
  qed
qed

section \<open>The fault handler of the pipeline\<close>

lemma trigger_webhook_frame:
  "users (trigger_webhook jid ev jd s) = users s \<and> api_jobs (trigger_webhook jid ev jd s) = api_jobs s"
  by (simp add: trigger_webhook_def split: option.splits)

lemma outbox_trigger_webhook:
  "webhook_url jd = Some url \<Longrightarrow> url \<noteq> [] \<Longrightarrow>
   outbox (trigger_webhook jid ev jd s) =
     outbox s @ [WebhookPost url ev jid (status jd) (results jd) (error jd)]"
  by (simp add: trigger_webhook_def)

text \<open>The handler, on a job that exists.\<close>

lemma pipeline_failed_effect:
  assumes "map_of (api_jobs s) jid = Some j"
  shows "map_of (api_jobs (pipeline_failed now jid uid e s)) jid =
           Some (j\<lparr>status := FAILED, error := Some (pipeline_error e),
                  completed_at := Some now,
                  cost_refunded := (if cost_charged j > 0 then cost_charged j
                                    else cost_refunded j)\<rparr>)"
    and "users (pipeline_failed now jid uid e s) =
           (if cost_charged j > 0
            then users (snd (refund_tokens uid (cost_charged j) ''job_failed'' jid s))
            else users s)"
    and "webhook_url j = Some url \<Longrightarrow> url \<noteq> [] \<Longrightarrow>
         outbox (pipeline_failed now jid uid e s) =
           outbox s @ [WebhookPost url ''job.failed'' jid FAILED (results j)
                         (Some (pipeline_error e))]"
  using assms
  by (simp_all add: pipeline_failed_def pipeline_error_def Let_def map_of_update_job
      users_update_job outbox_update_job refund_tokens_frame refund_tokens_users_update_job
      trigger_webhook_frame outbox_trigger_webhook)


lemma run_stages_job:
  assumes "map_of (api_jobs s) jid' = Some j"
  shows "\<exists>j2. map_of (api_jobs (snd (run_stages settings agents jid img ops opts uid s))) jid' = Some j2
           \<and> job_core j2 = job_core j"
proof -
  have "map_of (proj_jobs job_core (snd (run_stages settings agents jid img ops opts uid s))) jid' =
        map_of (proj_jobs job_core s) jid'"
    by (simp add: run_stages_frame)
  then show ?thesis using assms by (auto simp: map_of_proj_jobs)
qed

lemma job_core_fields:
  assumes "job_core j2 = job_core j"
  shows "status j2 = status j" "error j2 = error j" "completed_at j2 = completed_at j"
    "started_at j2 = started_at j"
    "cost_charged j2 = cost_charged j" "cost_refunded j2 = cost_refunded j"
    "cost_estimated j2 = cost_estimated j"
    "webhook_url j2 = webhook_url j" "results j2 = results j"
    "job_id j2 = job_id j" "user_id j2 = user_id j" "request_id j2 = request_id j"
proof -
  have "status (job_core j2) = status (job_core j)" using assms by simp
  then show "status j2 = status j" by (simp add: job_core_def)
  have "error (job_core j2) = error (job_core j)" using assms by simp
  then show "error j2 = error j" by (simp add: job_core_def)
  have "completed_at (job_core j2) = completed_at (job_core j)" using assms by simp
  then show "completed_at j2 = completed_at j" by (simp add: job_core_def)
  have "started_at (job_core j2) = started_at (job_core j)" using assms by simp
  then show "started_at j2 = started_at j" by (simp add: job_core_def)
  have "cost_charged (job_core j2) = cost_charged (job_core j)" using assms by simp
  then show "cost_charged j2 = cost_charged j" by (simp add: job_core_def)
  have "cost_refunded (job_core j2) = cost_refunded (job_core j)" using assms by simp
  then show "cost_refunded j2 = cost_refunded j" by (simp add: job_core_def)
  have "cost_estimated (job_core j2) = cost_estimated (job_core j)" using assms by simp
  then show "cost_estimated j2 = cost_estimated j" by (simp add: job_core_def)
  have "webhook_url (job_core j2) = webhook_url (job_core j)" using assms by simp
  then show "webhook_url j2 = webhook_url j" by (simp add: job_core_def)
  have "results (job_core j2) = results (job_core j)" using assms by simp
  then show "results j2 = results j" by (simp add: job_core_def)
  have "job_id (job_core j2) = job_id (job_core j)" using assms by simp
  then show "job_id j2 = job_id j" by (simp add: job_core_def)
  have "user_id (job_core j2) = user_id (job_core j)" using assms by simp
  then show "user_id j2 = user_id j" by (simp add: job_core_def)
  have "request_id (job_core j2) = request_id (job_core j)" using assms by simp
  then show "request_id j2 = request_id j" by (simp add: job_core_def)
qed

lemma trigger_pipeline_fault:
  assumes "map_of (api_jobs s) jid = Some j"
    and "fst (run_stages settings agents jid img ops opts uid s) = Inl e"
  shows "trigger_pipeline settings agents now jid img ops opts uid s =
    (Inr (), pipeline_failed now jid uid e
       (snd (run_stages settings agents jid img ops opts uid
          (update_job jid (\<lambda>j. j\<lparr>status := PROCESSING, started_at := Some now\<rparr>) s))))"
proof -
  let ?s1 = "update_job jid (\<lambda>j. j\<lparr>status := PROCESSING, started_at := Some now\<rparr>) s"
  have "fst (run_stages settings agents jid img ops opts uid ?s1) = Inl e"
    using assms(2) run_stages_fst [of settings agents jid img ops opts uid ?s1 s] by simp
  then show ?thesis using assms(1)
    by (simp add: trigger_pipeline_def Let_def split_beta)
qed

text \<open>The state after a pipeline fault, field by field.\<close>

lemma trigger_pipeline_fault_state:
  assumes job: "map_of (api_jobs s) jid = Some j"
    and fault: "fst (run_stages settings agents jid img ops opts uid s) = Inl e"
  shows "\<exists>j2. job_core j2 = job_core (j\<lparr>status := PROCESSING, started_at := Some now\<rparr>) \<and>
          map_of (api_jobs (snd (run_stages settings agents jid img ops opts uid
             (update_job jid (\<lambda>j. j\<lparr>status := PROCESSING, started_at := Some now\<rparr>) s)))) jid
            = Some j2 \<and>
          map_of (api_jobs (snd (trigger_pipeline settings agents now jid img ops opts uid s))) jid =
            Some (j2\<lparr>status := FAILED, error := Some (pipeline_error e),
                    completed_at := Some now,
                    cost_refunded := (if cost_charged j > 0 then cost_charged j
                                      else cost_refunded j)\<rparr>)"
    and "users (snd (trigger_pipeline settings agents now jid img ops opts uid s)) =
           (if cost_charged j > 0
            then users (snd (refund_tokens uid (cost_charged j) ''job_failed'' jid s))
            else users s)"
    and "webhook_url j = Some url \<Longrightarrow> url \<noteq> [] \<Longrightarrow>
         last (outbox (snd (trigger_pipeline settings agents now jid img ops opts uid s))) =
           WebhookPost url ''job.failed'' jid FAILED (results j) (Some (pipeline_error e))"
proof -
  let ?s1 = "update_job jid (\<lambda>j. j\<lparr>status := PROCESSING, started_at := Some now\<rparr>) s"
  let ?s2 = "snd (run_stages settings agents jid img ops opts uid ?s1)"
  have j1: "map_of (api_jobs ?s1) jid = Some (j\<lparr>status := PROCESSING, started_at := Some now\<rparr>)"
    using job by (simp add: map_of_update_job)
  from run_stages_job [OF j1, of settings agents jid img ops opts uid]
  obtain j2 where j2: "map_of (api_jobs ?s2) jid = Some j2"
    and core: "job_core j2 = job_core (j\<lparr>status := PROCESSING, started_at := Some now\<rparr>)"
    by blast
  have cc: "cost_charged j2 = cost_charged j" "cost_refunded j2 = cost_refunded j"
    "webhook_url j2 = webhook_url j" "results j2 = results j"
    using job_core_fields [OF core] by simp_all
  have us: "users ?s2 = users s"
    by (simp add: run_stages_frame users_update_job)
  note tp = trigger_pipeline_fault [OF job fault, where now = now]
  note pf = pipeline_failed_effect [OF j2, where now = now and uid = uid and e = e]
  show "\<exists>j2. job_core j2 = job_core (j\<lparr>status := PROCESSING, started_at := Some now\<rparr>) \<and>
          map_of (api_jobs ?s2) jid = Some j2 \<and>
          map_of (api_jobs (snd (trigger_pipeline settings agents now jid img ops opts uid s))) jid =
            Some (j2\<lparr>status := FAILED, error := Some (pipeline_error e),
                    completed_at := Some now,
                    cost_refunded := (if cost_charged j > 0 then cost_charged j
                                      else cost_refunded j)\<rparr>)"
    using core j2 pf(1) cc by (intro exI [of _ j2]) (simp add: tp)
  show "users (snd (trigger_pipeline settings agents now jid img ops opts uid s)) =
           (if cost_charged j > 0
            then users (snd (refund_tokens uid (cost_charged j) ''job_failed'' jid s))
            else users s)"
    using pf(2) cc us refund_tokens_users_cong [OF us, where uid = uid and amount = "cost_charged j" and reason = "''job_failed''" and jid = jid]
    by (simp add: tp)
  show "last (outbox (snd (trigger_pipeline settings agents now jid img ops opts uid s))) =
           WebhookPost url ''job.failed'' jid FAILED (results j) (Some (pipeline_error e))"
    if "webhook_url j = Some url" "url \<noteq> []"
    using pf(3) [where url = url] cc that by (simp add: tp)
qed

text \<open>
  C4: when the stages of a stored job raise (any agent call failing or timing out, at
  whichever stage), \<open>trigger_pipeline\<close> itself returns normally; the job is marked
  failed with the error \<open>pipeline_error\<close>, retryable, and its completion time; for a
  job whose cost fields are as \<open>create_job\<close> wrote them, \<open>cost.refunded\<close> becomes
  \<open>cost.charged\<close> and the account's stored balance grows by the whole charge; and
  with a webhook URL the last call sent is the \<open>job.failed\<close> webhook.
\<close>

theorem pipeline_fault_fails_and_refunds:
  assumes job: "map_of (api_jobs s) jid = Some j"
    and cost: "cost_refunded j = 0" "0 \<le> cost_charged j"
    and fault: "fst (run_stages settings agents jid img ops opts uid s) = Inl e"
  shows "fst (trigger_pipeline settings agents now jid img ops opts uid s) = Inr () \<and>
    (\<exists>j'. map_of (api_jobs (snd (trigger_pipeline settings agents now jid img ops opts uid s))) jid
            = Some j' \<and>
          status j' = FAILED \<and>
          error j' = Some \<lparr>code = ''pipeline_error'', message = e, retryable = True\<rparr> \<and>
          completed_at j' = Some now \<and>
          cost_charged j' = cost_charged j \<and> cost_refunded j' = cost_charged j) \<and>
    (\<forall>u. map_of (users s) uid = Some u \<longrightarrow>
       map_option stored_balance
         (map_of (users (snd (trigger_pipeline settings agents now jid img ops opts uid s))) uid) =
       Some (stored_balance u + cost_charged j)) \<and>
    (\<forall>url. webhook_url j = Some url \<and> url \<noteq> [] \<longrightarrow>
       last (outbox (snd (trigger_pipeline settings agents now jid img ops opts uid s))) =
         WebhookPost url ''job.failed'' jid FAILED (results j)
           (Some \<lparr>code = ''pipeline_error'', message = e, retryable = True\<rparr>))"
proof -
  let ?s' = "snd (trigger_pipeline settings agents now jid img ops opts uid s)"
  note st = trigger_pipeline_fault_state [OF job fault, where now = now]
  have ret: "fst (trigger_pipeline settings agents now jid img ops opts uid s) = Inr ()"
    by (simp add: trigger_pipeline_fault [OF job fault])
  from st(1) obtain j2 where
    core: "job_core j2 = job_core (j\<lparr>status := PROCESSING, started_at := Some now\<rparr>)" and
    fin: "map_of (api_jobs ?s') jid =
            Some (j2\<lparr>status := FAILED, error := Some (pipeline_error e),
                    completed_at := Some now,
                    cost_refunded := (if cost_charged j > 0 then cost_charged j
                                      else cost_refunded j)\<rparr>)"
    by blast
  have cc: "cost_charged j2 = cost_charged j"
    using job_core_fields(5) [OF core] by simp
  have doc: "\<exists>j'. map_of (api_jobs ?s') jid = Some j' \<and>
          status j' = FAILED \<and>
          error j' = Some \<lparr>code = ''pipeline_error'', message = e, retryable = True\<rparr> \<and>
          completed_at j' = Some now \<and>
          cost_charged j' = cost_charged j \<and> cost_refunded j' = cost_charged j"
    using fin cc cost by (auto simp: pipeline_error_def)
  have bal: "map_option stored_balance (map_of (users ?s') uid) =
       Some (stored_balance u + cost_charged j)" if u: "map_of (users s) uid = Some u" for u
  proof (cases "cost_charged j > 0")
    case True
    then show ?thesis using st(2) u by (simp add: refund_tokens_balance)
  next
    case False
    with cost have "cost_charged j = 0" by simp
    then show ?thesis using st(2) u by simp
  qed
  have hook: "last (outbox ?s') =
         WebhookPost url ''job.failed'' jid FAILED (results j)
           (Some \<lparr>code = ''pipeline_error'', message = e, retryable = True\<rparr>)"
    if "webhook_url j = Some url \<and> url \<noteq> []" for url
    using st(3) [of url] that by (simp add: pipeline_error_def)
  from ret doc bal hook show ?thesis by blast
qed

theorem pipeline_fault_fails_and_refunds_witness:
  "map_of (api_jobs pending_world) ''job_a'' = Some job_a \<and>
   cost_refunded job_a = 0 \<and> cost_charged job_a = 4 \<and>
   webhook_url job_a = Some ''https://hooks.example/cb'' \<and>
   fst (run_stages default_settings flux_down_agents ''job_a'' ''https://img.example/a.png''
          [NOVA, FLUX, ATLAS] None ''u1'' pending_world) = Inl ''503 Service Unavailable'' \<and>
   fst (trigger_pipeline default_settings flux_down_agents 1001 ''job_a''
          ''https://img.example/a.png'' [NOVA, FLUX, ATLAS] None ''u1'' pending_world) = Inr () \<and>
   map_option status (map_of (api_jobs (snd (trigger_pipeline default_settings flux_down_agents
          1001 ''job_a'' ''https://img.example/a.png'' [NOVA, FLUX, ATLAS] None ''u1''
          pending_world))) ''job_a'') = Some FAILED \<and>
   map_option cost_refunded (map_of (api_jobs (snd (trigger_pipeline default_settings
          flux_down_agents 1001 ''job_a'' ''https://img.example/a.png'' [NOVA, FLUX, ATLAS] None
          ''u1'' pending_world))) ''job_a'') = Some 4 \<and>
   map_option stored_balance (map_of (users (snd (trigger_pipeline default_settings
          flux_down_agents 1001 ''job_a'' ''https://img.example/a.png'' [NOVA, FLUX, ATLAS] None
          ''u1'' pending_world))) ''u1'') = Some 100 \<and>
   last (outbox (snd (trigger_pipeline default_settings flux_down_agents 1001 ''job_a''
          ''https://img.example/a.png'' [NOVA, FLUX, ATLAS] None ''u1'' pending_world))) =
     WebhookPost ''https://hooks.example/cb'' ''job.failed'' ''job_a'' FAILED None
       (Some \<lparr>code = ''pipeline_error'', message = ''503 Service Unavailable'',
              retryable = True\<rparr>)"
proof -
  have j: "map_of (api_jobs pending_world) ''job_a'' = Some job_a"
    by (simp add: pending_world_def)
  have f: "cost_refunded job_a = 0" "cost_charged job_a = 4"
      "webhook_url job_a = Some ''https://hooks.example/cb''" "results job_a = None"
    by (simp_all add: job_a_def new_job_data_def calculate_cost_total default_settings_def
        default_options_def nova_cost_def flux_cost_def)
  have u: "map_of (users pending_world) ''u1'' = Some (snd (hd (users pending_world)))"
      "stored_balance (snd (hd (users pending_world))) = 96"
    by (simp_all add: pending_world_def stored_balance_def)
  have r: "fst (run_stages default_settings flux_down_agents ''job_a'' ''https://img.example/a.png''
          [NOVA, FLUX, ATLAS] None ''u1'' pending_world) = Inl ''503 Service Unavailable''"
    by (simp add: run_stages_unfold nova_stage_def flux_stage_def flux_down_agents_def
        ok_agents_def Let_def)
  have c: "0 \<le> cost_charged job_a" using f by simp
  from pipeline_fault_fails_and_refunds [OF j f(1) c r, of 1001] j f u r
  show ?thesis by auto
qed

section \<open>Stage B failing after stage A\<close>

lemma run_stages_flux_fault:
  assumes "NOVA \<in> set ops" "FLUX \<in> set ops"
    and "nova_agent agents (nova_request settings opts img uid jid) = Inr gc"
    and "flux_agent agents (flux_request settings opts img uid jid) = Inl e"
  shows "fst (run_stages settings agents jid img ops opts uid s) = Inl e"
    and "map_of (api_jobs (snd (run_stages settings agents jid img ops opts uid s))) jid =
           map_option (\<lambda>j. j\<lparr>progress_nova := Some COMPLETED, progress_flux := Some PROCESSING\<rparr>)
             (map_of (api_jobs s) jid)"
    and "outbox (snd (run_stages settings agents jid img ops opts uid s)) =
           outbox s @ [nova_request settings opts img uid jid, flux_request settings opts img uid jid]"
  using assms
  by (simp_all add: run_stages_unfold nova_stage_def flux_stage_def Let_def
      map_of_update_job outbox_update_job option.map_comp comp_def)


lemma deduct_tokens_success:
  assumes "fst (deduct_tokens uid amount reason jid s) = Inr b"
  shows "api_jobs (snd (deduct_tokens uid amount reason jid s)) = api_jobs s"
    and "outbox (snd (deduct_tokens uid amount reason jid s)) = outbox s"
    and "map_option stored_balance (map_of (users (snd (deduct_tokens uid amount reason jid s))) uid)
           = Some b"
    and "b = observed_balance uid s - amount"
proof -
  from assms obtain u where u: "map_of (users s) uid = Some u"
    by (cases "map_of (users s) uid") (auto simp: deduct_tokens_def)
  have "api_jobs (snd (deduct_tokens uid amount reason jid s)) = api_jobs s \<and>
        outbox (snd (deduct_tokens uid amount reason jid s)) = outbox s \<and>
        map_option stored_balance (map_of (users (snd (deduct_tokens uid amount reason jid s))) uid)
           = Some b \<and> b = observed_balance uid s - amount"
    using assms u
    by (simp add: deduct_tokens_def Let_def update_conv' stored_balance_def observed_balance_def
        check_balance_def split: if_splits)
  then show "api_jobs (snd (deduct_tokens uid amount reason jid s)) = api_jobs s"
    and "outbox (snd (deduct_tokens uid amount reason jid s)) = outbox s"
    and "map_option stored_balance (map_of (users (snd (deduct_tokens uid amount reason jid s))) uid)
           = Some b"
    and "b = observed_balance uid s - amount"
    by blast+
qed

text \<open>A fresh creation that can be paid: the job is stored, then the pipeline runs.\<close>

lemma create_job_fresh:
  assumes "existing_job uid rid s = None"
    and "fst (deduct_tokens uid (fst (calculate_cost settings ops opts)) ''api_job'' jid s) = Inr b"
  shows "create_job settings agents now jid uid akid img ops opts wh cm rid test s =
     (let s1 = snd (deduct_tokens uid (fst (calculate_cost settings ops opts)) ''api_job'' jid s);
          s2 = s1\<lparr>api_jobs := AList.update jid
                     (new_job_data settings now jid uid akid img ops opts wh cm rid test)
                     (api_jobs s1)\<rparr>;
          t = trigger_pipeline settings agents now jid img ops opts uid s2
      in case fst t of
           Inl err \<Rightarrow> (Inl err, snd t)
         | Inr _ \<Rightarrow>
             (Inr \<lparr>r_job_id = jid, r_status = PENDING, r_operations = ops,
                   r_cost = [(''estimated_aet'', fst (calculate_cost settings ops opts))],
                   r_created_at = now,
                   r_links_self = ''/v1/jobs/'' @ jid,
                   r_links_cancel = ''/v1/jobs/'' @ jid,
                   r_message = None\<rparr>, snd t))"
  using assms
  by (simp add: create_job_def Let_def split_beta split: sum.split)

text \<open>
  C5 (as the code has it): a job is freshly created and paid for, stage A (nova) answers
  and stage B (flux) raises. The stored job ends failed, with stage A's progress
  completed, stage B's progress left at \<open>processing\<close> (the handler does not touch the
  progress entries), stage C's progress as created, and \<open>cost.refunded\<close> equal to the
  charge for all requested stages; the account's stored balance is back to what it was
  before the deduction.
\<close>

theorem flux_failure_after_nova_success:
  assumes fresh: "existing_job uid rid s = None"
    and funds: "fst (deduct_tokens uid (fst (calculate_cost settings ops opts)) ''api_job'' jid s)
                  = Inr b"
    and price: "0 \<le> fst (calculate_cost settings ops opts)"
    and requested: "NOVA \<in> set ops \<and> FLUX \<in> set ops"
    and nova_ok: "nova_agent agents (nova_request settings opts img uid jid) = Inr gc"
    and flux_down: "flux_agent agents (flux_request settings opts img uid jid) = Inl e"
  shows "(\<exists>j'. map_of (api_jobs (snd (create_job settings agents now jid uid akid img ops opts wh cm
                    rid test s))) jid = Some j' \<and>
           status j' = FAILED \<and>
           progress_nova j' = Some COMPLETED \<and>
           progress_flux j' = Some PROCESSING \<and>
           progress_atlas j' = (if ATLAS \<in> set ops then Some PENDING else None) \<and>
           cost_charged j' = fst (calculate_cost settings ops opts) \<and>
           cost_refunded j' = fst (calculate_cost settings ops opts)) \<and>
         map_option stored_balance
           (map_of (users (snd (create_job settings agents now jid uid akid img ops opts wh cm
                    rid test s))) uid) = Some (b + fst (calculate_cost settings ops opts))"
proof -
  let ?total = "fst (calculate_cost settings ops opts)"
  let ?jd = "new_job_data settings now jid uid akid img ops opts wh cm rid test"
  let ?s1 = "snd (deduct_tokens uid ?total ''api_job'' jid s)"
  let ?s2 = "?s1\<lparr>api_jobs := AList.update jid ?jd (api_jobs ?s1)\<rparr>"
  let ?t = "trigger_pipeline settings agents now jid img ops opts uid ?s2"
  have jd: "map_of (api_jobs ?s2) jid = Some ?jd"
    by (simp add: update_conv')
  have jdf: "cost_charged ?jd = ?total" "cost_refunded ?jd = 0"
    "progress_atlas ?jd = (if ATLAS \<in> set ops then Some PENDING else None)"
    by (simp_all add: new_job_data_def Let_def)
  note rs = run_stages_flux_fault [OF conjunct1 [OF requested] conjunct2 [OF requested]
      nova_ok flux_down]
  have fault: "fst (run_stages settings agents jid img ops opts uid ?s2) = Inl e"
    by (rule rs(1))
  have snd_create: "snd (create_job settings agents now jid uid akid img ops opts wh cm rid test s)
      = snd ?t"
    by (simp add: create_job_fresh [OF fresh funds] Let_def split: sum.split)
  note st = trigger_pipeline_fault_state [OF jd fault, where now = now]
  from st(1) obtain j2 where
    mid: "map_of (api_jobs (snd (run_stages settings agents jid img ops opts uid
             (update_job jid (\<lambda>j. j\<lparr>status := PROCESSING, started_at := Some now\<rparr>) ?s2)))) jid
            = Some j2" and
    fin: "map_of (api_jobs (snd ?t)) jid =
            Some (j2\<lparr>status := FAILED, error := Some (pipeline_error e),
                    completed_at := Some now,
                    cost_refunded := (if cost_charged ?jd > 0 then cost_charged ?jd
                                      else cost_refunded ?jd)\<rparr>)"
    by blast
  have j2: "j2 = ?jd\<lparr>status := PROCESSING, started_at := Some now,
                    progress_nova := Some COMPLETED, progress_flux := Some PROCESSING\<rparr>"
    using mid rs(2) [of "update_job jid (\<lambda>j. j\<lparr>status := PROCESSING, started_at := Some now\<rparr>) ?s2"]
      jd by (simp add: map_of_update_job)
  have doc: "\<exists>j'. map_of (api_jobs (snd ?t)) jid = Some j' \<and>
           status j' = FAILED \<and>
           progress_nova j' = Some COMPLETED \<and>
           progress_flux j' = Some PROCESSING \<and>
           progress_atlas j' = (if ATLAS \<in> set ops then Some PENDING else None) \<and>
           cost_charged j' = ?total \<and> cost_refunded j' = ?total"
    using fin j2 jdf price by auto
  have us1: "map_option stored_balance (map_of (users ?s2) uid) = Some b"
    using deduct_tokens_success(3) [OF funds] by simp
  then obtain u where u: "map_of (users ?s2) uid = Some u" and ub: "stored_balance u = b"
    by auto
  have bal: "map_option stored_balance (map_of (users (snd ?t)) uid) = Some (b + ?total)"
  proof (cases "?total > 0")
    case True
    then show ?thesis using st(2) u ub jdf refund_tokens_balance [OF u] by simp
  next
    case False
    with price have "?total = 0" by simp
    then show ?thesis using st(2) u ub jdf by simp
  qed
  from doc bal show ?thesis unfolding snd_create by blast
qed

theorem flux_failure_after_nova_success_witness:
  "existing_job ''u1'' (Some ''req-1'') rich_world = None \<and>
   fst (calculate_cost default_settings [NOVA, FLUX, ATLAS] None) = 4 \<and>
   fst (deduct_tokens ''u1'' 4 ''api_job'' ''job_a'' rich_world) = Inr 96 \<and>
   NOVA \<in> set [NOVA, FLUX, ATLAS] \<and> FLUX \<in> set [NOVA, FLUX, ATLAS] \<and>
   nova_agent flux_down_agents
     (nova_request default_settings None ''https://img.example/a.png'' ''u1'' ''job_a'') =
     Inr (Some [(''title'', ''Untitled'')]) \<and>
   flux_agent flux_down_agents
     (flux_request default_settings None ''https://img.example/a.png'' ''u1'' ''job_a'') =
     Inl ''503 Service Unavailable'' \<and>
   map_option status (map_of (api_jobs (snd flux_failure_run)) ''job_a'') = Some FAILED \<and>
   map_option progress_nova (map_of (api_jobs (snd flux_failure_run)) ''job_a'') =
     Some (Some COMPLETED) \<and>
   map_option progress_flux (map_of (api_jobs (snd flux_failure_run)) ''job_a'') =
     Some (Some PROCESSING) \<and>
   map_option cost_refunded (map_of (api_jobs (snd flux_failure_run)) ''job_a'') = Some 4 \<and>
   map_option stored_balance (map_of (users (snd flux_failure_run)) ''u1'') = Some 100"
proof -
  have e: "existing_job ''u1'' (Some ''req-1'') rich_world = None"
    by (simp add: existing_job_def find_existing_def rich_world_def)
  have c: "fst (calculate_cost default_settings [NOVA, FLUX, ATLAS] None) = 4"
    by (simp add: calculate_cost_total default_settings_def default_options_def
        nova_cost_def flux_cost_def)
  have d: "fst (deduct_tokens ''u1'' 4 ''api_job'' ''job_a'' rich_world) = Inr 96"
    by (simp add: deduct_tokens_def rich_world_def)
  have d': "fst (deduct_tokens ''u1'' (fst (calculate_cost default_settings [NOVA, FLUX, ATLAS]
      None)) ''api_job'' ''job_a'' rich_world) = Inr 96"
    using d c by simp
  have p: "0 \<le> fst (calculate_cost default_settings [NOVA, FLUX, ATLAS] None)"
    using c by simp
  have r: "NOVA \<in> set [NOVA, FLUX, ATLAS] \<and> FLUX \<in> set [NOVA, FLUX, ATLAS]"
    by simp
  have n: "nova_agent flux_down_agents
     (nova_request default_settings None ''https://img.example/a.png'' ''u1'' ''job_a'') =
     Inr (Some [(''title'', ''Untitled'')])"
    by (simp add: flux_down_agents_def ok_agents_def)
  have f: "flux_agent flux_down_agents
     (flux_request default_settings None ''https://img.example/a.png'' ''u1'' ''job_a'') =
     Inl ''503 Service Unavailable''"
    by (simp add: flux_down_agents_def ok_agents_def)
  from flux_failure_after_nova_success [OF e d' p r n f, where now = 1000 and akid = "''key_1''"
      and wh = None and cm = None and test = False] e c d r n f
  show ?thesis unfolding flux_failure_run_def by auto
qed

lemma flux_failure_run_eval:
  "map_option (\<lambda>j. (status j, progress_nova j, progress_flux j, progress_atlas j,
       cost_charged j, cost_refunded j))
     (map_of (api_jobs (snd flux_failure_run)) ''job_a'') =
     Some (FAILED, Some COMPLETED, Some PROCESSING, Some PENDING, 4, 4)"
  by (simp add: flux_failure_run_def create_job_def existing_job_def find_existing_def
      rich_world_def new_job_data_def calculate_cost_total default_settings_def
      default_options_def nova_cost_def flux_cost_def deduct_tokens_def trigger_pipeline_def
      run_stages_unfold nova_stage_def flux_stage_def pipeline_failed_def refund_tokens_def
      trigger_webhook_def update_job_def flux_down_agents_def ok_agents_def
      nova_request_def flux_request_def Let_def)

text \<open>
  C5 as the specification words it, "stage-B progress reflects failure", fails: in the
  run \<open>flux_failure_run\<close> the job is failed and stage A is completed, but stage B's
  progress entry is still \<open>processing\<close>, not \<open>failed\<close>.
\<close>

theorem flux_progress_not_failed_counterexample:
  "map_option status (map_of (api_jobs (snd flux_failure_run)) ''job_a'') = Some FAILED \<and>
   map_option progress_nova (map_of (api_jobs (snd flux_failure_run)) ''job_a'') =
     Some (Some COMPLETED) \<and>
   map_option progress_flux (map_of (api_jobs (snd flux_failure_run)) ''job_a'') =
     Some (Some PROCESSING) \<and>
   map_option progress_flux (map_of (api_jobs (snd flux_failure_run)) ''job_a'') \<noteq>
     Some (Some FAILED)"
  using flux_failure_run_eval by (auto simp: option.map_sel)

section \<open>Idempotent creation\<close>

text \<open>The pipeline never changes which job belongs to which request.\<close>

lemma job_identity_simps [simp]:
  "job_identity (j\<lparr>status := a\<rparr>) = job_identity j"
  "job_identity (j\<lparr>started_at := b\<rparr>) = job_identity j"
  "job_identity (j\<lparr>completed_at := c\<rparr>) = job_identity j"
  "job_identity (j\<lparr>error := d\<rparr>) = job_identity j"
  "job_identity (j\<lparr>results := e\<rparr>) = job_identity j"
  "job_identity (j\<lparr>cost_refunded := f\<rparr>) = job_identity j"
  "job_identity (job_core j) = job_identity j"
  by (simp_all add: job_identity_def job_core_def)

lemma proj_identity_from_core:
  assumes "proj_jobs job_core s' = proj_jobs job_core s"
  shows "proj_jobs job_identity s' = proj_jobs job_identity s"
proof -
  have "proj_jobs job_identity t =
        map (\<lambda>kc. (fst kc, job_identity (snd kc))) (proj_jobs job_core t)" for t
    by (simp add: proj_jobs_def comp_def)
  then show ?thesis using assms by simp
qed

lemma proj_jobs_cong: "api_jobs s' = api_jobs s \<Longrightarrow> proj_jobs p s' = proj_jobs p s"
  by (simp add: proj_jobs_def)

lemma pipeline_failed_identity:
  "proj_jobs job_identity (pipeline_failed now jid uid e s) = proj_jobs job_identity s"
proof -
  have w: "proj_jobs job_identity (trigger_webhook jid ev jd t) = proj_jobs job_identity t"
    for ev jd t
    by (rule proj_jobs_cong) (simp add: trigger_webhook_frame)
  have r: "proj_jobs job_identity (snd (refund_tokens uid a rs jid t)) = proj_jobs job_identity t"
    for a rs t
    by (rule proj_jobs_cong) (simp add: refund_tokens_frame)
  show ?thesis
    by (simp add: pipeline_failed_def Let_def w r proj_jobs_update_job split: option.split)
qed

lemma pipeline_completed_identity:
  "proj_jobs job_identity (pipeline_completed now jid res s) = proj_jobs job_identity s"
proof -
  have w: "proj_jobs job_identity (trigger_webhook jid ev jd t) = proj_jobs job_identity t"
    for ev jd t
    by (rule proj_jobs_cong) (simp add: trigger_webhook_frame)
  show ?thesis
    by (simp add: pipeline_completed_def Let_def w proj_jobs_update_job split: option.split)
qed

lemma trigger_pipeline_identity:
  "proj_jobs job_identity (snd (trigger_pipeline settings agents now jid img ops opts uid s)) =
   proj_jobs job_identity s"
proof (cases "map_of (api_jobs s) jid")
  case None
  then show ?thesis by (simp add: trigger_pipeline_def)
next
  case (Some j)
  let ?s1 = "update_job jid (\<lambda>j. j\<lparr>status := PROCESSING, started_at := Some now\<rparr>) s"
  let ?r = "run_stages settings agents jid img ops opts uid ?s1"
  have 1: "proj_jobs job_identity ?s1 = proj_jobs job_identity s"
    by (simp add: proj_jobs_update_job)
  have 2: "proj_jobs job_identity (snd ?r) = proj_jobs job_identity ?s1"
    by (rule proj_identity_from_core) (simp add: run_stages_frame)
  show ?thesis
    using Some 1 2
    by (simp add: trigger_pipeline_def Let_def split_beta pipeline_failed_identity
        pipeline_completed_identity split: sum.split)
qed

text \<open>The deduction records are touched by \<open>deduct_tokens\<close> alone.\<close>

lemma deductions_cong: "users s' = users s \<Longrightarrow> deductions uid s' = deductions uid s"
  by (simp add: deductions_def)

lemma deductions_refund:
  "deductions uid' (snd (refund_tokens uid a rs jid s)) = deductions uid' s"
  by (simp add: deductions_def refund_tokens_def Let_def update_conv' split: option.split)

lemma pipeline_failed_deductions:
  "deductions uid' (pipeline_failed now jid uid e s) = deductions uid' s"
proof -
  have w: "deductions uid' (trigger_webhook jid ev jd t) = deductions uid' t" for ev jd t
    by (rule deductions_cong) (simp add: trigger_webhook_frame)
  have u: "deductions uid' (update_job jid f t) = deductions uid' t" for f t
    by (rule deductions_cong) (simp add: users_update_job)
  show ?thesis
    by (simp add: pipeline_failed_def Let_def w u deductions_refund split: option.split)
qed

lemma pipeline_completed_deductions:
  "deductions uid' (pipeline_completed now jid res s) = deductions uid' s"
proof -
  have w: "deductions uid' (trigger_webhook jid ev jd t) = deductions uid' t" for ev jd t
    by (rule deductions_cong) (simp add: trigger_webhook_frame)
  have u: "deductions uid' (update_job jid f t) = deductions uid' t" for f t
    by (rule deductions_cong) (simp add: users_update_job)
  show ?thesis
    by (simp add: pipeline_completed_def Let_def w u split: option.split)
qed

lemma trigger_pipeline_deductions:
  "deductions uid' (snd (trigger_pipeline settings agents now jid img ops opts uid s)) =
   deductions uid' s"
proof (cases "map_of (api_jobs s) jid")
  case None
  then show ?thesis by (simp add: trigger_pipeline_def)
next
  case (Some j)
  let ?s1 = "update_job jid (\<lambda>j. j\<lparr>status := PROCESSING, started_at := Some now\<rparr>) s"
  let ?r = "run_stages settings agents jid img ops opts uid ?s1"
  have "deductions uid' (snd ?r) = deductions uid' s"
    by (rule deductions_cong) (simp add: run_stages_frame users_update_job)
  then show ?thesis
    using Some
    by (simp add: trigger_pipeline_def Let_def split_beta pipeline_failed_deductions
        pipeline_completed_deductions split: sum.split)
qed

lemma deduct_tokens_deductions:
  assumes "fst (deduct_tokens uid amount reason jid s) = Inr b"
  shows "deductions uid (snd (deduct_tokens uid amount reason jid s)) = deductions uid s + 1"
proof -
  from assms obtain u where u: "map_of (users s) uid = Some u"
    by (cases "map_of (users s) uid") (auto simp: deduct_tokens_def)
  then show ?thesis using assms
    by (simp add: deduct_tokens_def deductions_def Let_def update_conv' split: if_splits)
qed

lemma find_job_id_projection:
  assumes "map (\<lambda>kj. (fst kj, job_identity (snd kj))) xs =
           map (\<lambda>kj. (fst kj, job_identity (snd kj))) ys"
  shows "map_option (\<lambda>kj. job_id (snd kj))
           (List.find (\<lambda>kj. user_id (snd kj) = uid \<and> request_id (snd kj) = Some rid) xs) =
         map_option (\<lambda>kj. job_id (snd kj))
           (List.find (\<lambda>kj. user_id (snd kj) = uid \<and> request_id (snd kj) = Some rid) ys)"
  using assms
proof (induction xs arbitrary: ys)
  case Nil
  then show ?case by simp
next
  case (Cons x xs)
  then obtain y ys' where ys: "ys = y # ys'" by (cases ys) auto
  with Cons.prems have h: "job_identity (snd x) = job_identity (snd y)"
    and t: "map (\<lambda>kj. (fst kj, job_identity (snd kj))) xs =
            map (\<lambda>kj. (fst kj, job_identity (snd kj))) ys'"
    by simp_all
  from h have "job_id (snd x) = job_id (snd y)" "user_id (snd x) = user_id (snd y)"
    "request_id (snd x) = request_id (snd y)"
    by (simp_all add: job_identity_def)
  then show ?case using Cons.IH [OF t] ys by simp
qed

lemma find_existing_job_id_cong:
  assumes "proj_jobs job_identity s' = proj_jobs job_identity s"
  shows "map_option job_id (find_existing uid rid s') = map_option job_id (find_existing uid rid s)"
  using find_job_id_projection [of "api_jobs s'" "api_jobs s" uid rid] assms
  by (simp add: find_existing_def proj_jobs_def option.map_comp comp_def)

lemma find_after_update:
  assumes "List.find P xs = None" and "P (k, v)"
  shows "List.find P (AList.update k v xs) = Some (k, v)"
  using assms by (induction xs) (auto split: if_splits)

lemma find_existing_after_insert:
  assumes "find_existing uid rid s = None"
    and "user_id jd = uid" "request_id jd = Some rid"
  shows "find_existing uid rid (s\<lparr>api_jobs := AList.update jid jd (api_jobs s)\<rparr>) = Some jd"
  using assms find_after_update [of "\<lambda>kj. user_id (snd kj) = uid \<and> request_id (snd kj) = Some rid"
      "api_jobs s" jid jd]
  by (simp add: find_existing_def)

lemma find_existing_cong:
  "api_jobs s' = api_jobs s \<Longrightarrow> find_existing uid rid s' = find_existing uid rid s"
  by (simp add: find_existing_def)

text \<open>A replay returns the stored job and the state as it is.\<close>

lemma create_job_replay:
  assumes "existing_job uid rid s = Some e"
  shows "create_job settings agents now jid uid akid img ops opts wh cm rid test s =
     (Inr \<lparr>r_job_id = job_id e, r_status = status e, r_operations = operations e,
           r_cost = [(''estimated_aet'', cost_estimated e)],
           r_created_at = created_at e,
           r_links_self = ''/v1/jobs/'' @ job_id e,
           r_links_cancel = ''/v1/jobs/'' @ job_id e,
           r_message = Some ''Job already created for this request_id''\<rparr>, s)"
  using assms by (simp add: create_job_def Let_def)

text \<open>After a successful creation with a key, the key leads to the returned job.\<close>

lemma create_job_then_existing:
  assumes key: "rid \<noteq> []"
    and first: "create_job settings agents now jid uid akid img ops opts wh cm (Some rid) test s
                  = (Inr r1, s1)"
  shows "map_option job_id (existing_job uid (Some rid) s1) = Some (r_job_id r1)"
    and "deductions uid s1 =
           deductions uid s + (if existing_job uid (Some rid) s = None then 1 else 0)"
proof -
  have both: "map_option job_id (existing_job uid (Some rid) s1) = Some (r_job_id r1) \<and>
     deductions uid s1 =
           deductions uid s + (if existing_job uid (Some rid) s = None then 1 else 0)"
  proof (cases "existing_job uid (Some rid) s")
    case (Some e)
    then show ?thesis using first by (auto simp: create_job_replay)
  next
    case None
    let ?total = "fst (calculate_cost settings ops opts)"
    from first None obtain b where
      funds: "fst (deduct_tokens uid ?total ''api_job'' jid s) = Inr b"
      by (cases "fst (deduct_tokens uid ?total ''api_job'' jid s)")
        (auto simp: create_job_def Let_def split_beta)
    let ?jd = "new_job_data settings now jid uid akid img ops opts wh cm (Some rid) test"
    let ?s1 = "snd (deduct_tokens uid ?total ''api_job'' jid s)"
    let ?s2 = "?s1\<lparr>api_jobs := AList.update jid ?jd (api_jobs ?s1)\<rparr>"
    let ?t = "trigger_pipeline settings agents now jid img ops opts uid ?s2"
    from first have s1: "s1 = snd ?t" and r1: "r_job_id r1 = jid"
      by (auto simp: create_job_fresh [OF None funds] Let_def split: sum.splits)
    have "find_existing uid rid ?s1 = None"
      using None key deduct_tokens_success(1) [OF funds]
      by (simp add: existing_job_def find_existing_def)
    then have "find_existing uid rid ?s2 = Some ?jd"
      by (rule find_existing_after_insert) (simp_all add: new_job_data_def Let_def)
    then have "map_option job_id (find_existing uid rid ?s2) = Some jid"
      by (simp add: new_job_data_def Let_def)
    then have "map_option job_id (find_existing uid rid (snd ?t)) = Some jid"
      using find_existing_job_id_cong [OF trigger_pipeline_identity,
          of uid rid settings agents now jid img ops opts uid ?s2]
      by simp
    then have a: "map_option job_id (existing_job uid (Some rid) s1) = Some (r_job_id r1)"
      using key s1 r1 by (simp add: existing_job_def)
    have "deductions uid ?s2 = deductions uid s + 1"
      using deduct_tokens_deductions [OF funds] by (simp add: deductions_def)
    then have "deductions uid s1 = deductions uid s + 1"
      by (simp add: s1 trigger_pipeline_deductions)
    with a None show ?thesis by simp
  qed
  from both show "map_option job_id (existing_job uid (Some rid) s1) = Some (r_job_id r1)"
    and "deductions uid s1 =
           deductions uid s + (if existing_job uid (Some rid) s = None then 1 else 0)"
    by blast+
qed

text \<open>
  C2 (as the code has it): for every account and every key that is not the empty
  string, once a creation with that key has succeeded, any further creation by the
  same account with the same key (whatever its other arguments) succeeds with the same
  job id and returns the state it was given: no deduction, no job document written, no
  agent or webhook called. Over both calls the account's audit trail gains one
  deduction record if the first call found no earlier job for the key, and none if the
  first call was itself a replay.
\<close>

theorem create_job_idempotent:
  assumes key: "rid \<noteq> []"
    and first: "create_job settings agents now jid uid akid img ops opts wh cm (Some rid) test s
                  = (Inr r1, s1)"
  shows "(\<exists>r2. create_job settings' agents' now' jid' uid akid' img' ops' opts' wh' cm' (Some rid)
                 test' s1 = (Inr r2, s1) \<and> r_job_id r2 = r_job_id r1) \<and>
         deductions uid s1 =
           deductions uid s + (if existing_job uid (Some rid) s = None then 1 else 0)"
proof -
  from create_job_then_existing(1) [OF key first]
  obtain e where e: "existing_job uid (Some rid) s1 = Some e" and id: "job_id e = r_job_id r1"
    by auto
  have "\<exists>r2. create_job settings' agents' now' jid' uid akid' img' ops' opts' wh' cm' (Some rid)
                 test' s1 = (Inr r2, s1) \<and> r_job_id r2 = r_job_id r1"
    using id by (simp add: create_job_replay [OF e])
  with create_job_then_existing(2) [OF key first] show ?thesis by simp
qed

lemma keyed_first_eval:
  "fst keyed_first =
     Inr \<lparr>r_job_id = ''job_a'', r_status = PENDING, r_operations = [NOVA, FLUX, ATLAS],
          r_cost = [(''estimated_aet'', 4)], r_created_at = 1000,
          r_links_self = ''/v1/jobs/job_a'', r_links_cancel = ''/v1/jobs/job_a'',
          r_message = None\<rparr>"
  by code_simp

theorem create_job_idempotent_witness:
  "''req-1'' \<noteq> [] \<and>
   existing_job ''u1'' (Some ''req-1'') rich_world = None \<and>
   map_sum id r_job_id (fst keyed_first) = Inr ''job_a'' \<and>
   map_sum id r_job_id (fst keyed_second) = Inr ''job_a'' \<and>
   snd keyed_second = snd keyed_first \<and>
   deductions ''u1'' (snd keyed_second) = deductions ''u1'' rich_world + 1"
proof -
  let ?r1 = "\<lparr>r_job_id = ''job_a'', r_status = PENDING, r_operations = [NOVA, FLUX, ATLAS],
          r_cost = [(''estimated_aet'', 4)], r_created_at = 1000,
          r_links_self = ''/v1/jobs/job_a'', r_links_cancel = ''/v1/jobs/job_a'',
          r_message = None\<rparr>"
  have k: "''req-1'' \<noteq> []" by simp
  have e: "existing_job ''u1'' (Some ''req-1'') rich_world = None"
    by (simp add: existing_job_def find_existing_def rich_world_def)
  have f: "create_job default_settings ok_agents 1000 ''job_a'' ''u1'' ''key_1''
       ''https://img.example/a.png'' [NOVA, FLUX, ATLAS] None None None (Some ''req-1'')
       False rich_world = (Inr ?r1, snd keyed_first)"
    using keyed_first_eval by (simp add: keyed_first_def prod_eq_iff)
  from create_job_idempotent [OF k f, where settings' = default_settings and agents' = ok_agents
      and now' = 1001 and jid' = "''job_b''" and akid' = "''key_1''"
      and img' = "''https://img.example/a.png''" and ops' = "[NOVA, FLUX, ATLAS]"
      and opts' = None and wh' = None and cm' = None and test' = False]
    e keyed_first_eval
  show ?thesis
    by (auto simp: keyed_second_def)
qed

text \<open>
  C2 as the specification words it, for every key, fails at the empty key: the guard
  \<open>if request_id:\<close> skips the idempotency check, so two creations with the key
  \<open>""\<close> return two job ids and make two deductions.
\<close>

theorem empty_key_not_idempotent_counterexample:
  "deductions ''u1'' rich_world = 0 \<and>
   map_sum id r_job_id (fst empty_key_first) = Inr ''job_a'' \<and>
   map_sum id r_job_id (fst empty_key_second) = Inr ''job_b'' \<and>
   deductions ''u1'' (snd empty_key_second) = 2"
  by code_simp

section \<open>The fixed window of the rate limiter\<close>

lemma check_rate_limit_step:
  assumes "now div 60 = w"
  shows "check_rate_limit settings now auth rl =
     (if window_count rl (key_id auth) w + 1 > get_rate_limit_for_tier settings (auth_tier auth)
      then Inl (HTTP_429_rate_limited (w * 60 + 60 - now)
                  (get_rate_limit_for_tier settings (auth_tier auth)) 0 (w * 60 + 60))
      else Inr (get_rate_limit_for_tier settings (auth_tier auth),
                max 0 (get_rate_limit_for_tier settings (auth_tier auth) -
                       (window_count rl (key_id auth) w + 1)),
                w * 60 + 60),
      rl(key_id auth \<mapsto> \<lparr>count = window_count rl (key_id auth) w + 1, window_start = w * 60\<rparr>))"
  using assms
  by (cases "rl (key_id auth)") (auto simp: check_rate_limit_def window_count_def Let_def)

lemma window_count_after:
  "window_count (rl(k \<mapsto> \<lparr>count = c, window_start = w * 60\<rparr>)) k w = c"
  by (simp add: window_count_def)

lemma check_rate_limit_seq_nth:
  assumes "\<forall>t\<in>set nows. t div 60 = w" and "i < length nows"
  shows "fst (check_rate_limit_seq settings auth nows rl) ! i =
     (if window_count rl (key_id auth) w + int i + 1 >
           get_rate_limit_for_tier settings (auth_tier auth)
      then Inl (HTTP_429_rate_limited (w * 60 + 60 - nows ! i)
                  (get_rate_limit_for_tier settings (auth_tier auth)) 0 (w * 60 + 60))
      else Inr (get_rate_limit_for_tier settings (auth_tier auth),
                max 0 (get_rate_limit_for_tier settings (auth_tier auth) -
                       (window_count rl (key_id auth) w + int i + 1)),
                w * 60 + 60))"
  using assms
proof (induction nows arbitrary: rl i)
  case Nil
  then show ?case by simp
next
  case (Cons now nows)
  have now: "now div 60 = w" using Cons.prems by simp
  let ?rl1 = "rl(key_id auth \<mapsto>
      \<lparr>count = window_count rl (key_id auth) w + 1, window_start = w * 60\<rparr>)"
  have step: "snd (check_rate_limit settings now auth rl) = ?rl1"
    by (simp add: check_rate_limit_step [OF now])
  show ?case
  proof (cases i)
    case 0
    then show ?thesis by (simp add: check_rate_limit_step [OF now] split_beta)
  next
    case (Suc i')
    have rest: "\<forall>t\<in>set nows. t div 60 = w" "i' < length nows"
      using Cons.prems Suc by simp_all
    have eq: "fst (check_rate_limit_seq settings auth (now # nows) rl) ! i =
          fst (check_rate_limit_seq settings auth nows ?rl1) ! i'"
      using Suc step by (simp add: split_beta)
    have wc: "window_count ?rl1 (key_id auth) w = window_count rl (key_id auth) w + 1"
      by (rule window_count_after)
    have ar: "window_count rl (key_id auth) w + 1 + int i' + 1 =
              window_count rl (key_id auth) w + int i + 1"
      using Suc by simp
    have nth: "(now # nows) ! i = nows ! i'" using Suc by simp
    show ?thesis
      unfolding eq nth Cons.IH [OF rest, of ?rl1] wc ar ..
  qed
qed

text \<open>
  C8: a credential with no window of the current minute yet makes \<open>limit + 1\<close>
  requests within one minute \<open>w\<close> (clock readings \<open>nows\<close>, all with
  \<open>now div 60 = w\<close>). The first \<open>limit\<close> calls succeed, call \<open>i\<close> (from 0)
  reporting \<open>limit - i - 1\<close> remaining; call \<open>limit + 1\<close> is refused with
  \<open>rate_limited\<close>, remaining 0, and a \<open>retry_after\<close> that is the number of seconds
  from that call to the next window boundary \<open>60 * w + 60\<close>, between 0 and 60.
\<close>

theorem rate_limit_refuses_after_limit:
  assumes fresh: "fresh_window rl (key_id auth) w"
    and minute: "\<forall>t\<in>set nows. t div 60 = w"
    and limit: "get_rate_limit_for_tier settings (auth_tier auth) = limit" "0 \<le> limit"
    and calls: "length nows = nat limit + 1"
  shows "(\<forall>i < nat limit. fst (check_rate_limit_seq settings auth nows rl) ! i =
            Inr (limit, limit - int i - 1, w * 60 + 60)) \<and>
         (\<exists>retry_after.
            fst (check_rate_limit_seq settings auth nows rl) ! nat limit =
              Inl (HTTP_429_rate_limited retry_after limit 0 (w * 60 + 60)) \<and>
            retry_after = w * 60 + 60 - nows ! nat limit \<and>
            0 \<le> retry_after \<and> retry_after \<le> 60)"
proof -
  have c0: "window_count rl (key_id auth) w = 0"
    using fresh by (auto simp: fresh_window_def window_count_def split: option.splits)
  have ok: "fst (check_rate_limit_seq settings auth nows rl) ! i =
            Inr (limit, limit - int i - 1, w * 60 + 60)" if "i < nat limit" for i
  proof -
    have "i < length nows" using that calls by simp
    from check_rate_limit_seq_nth [OF minute this, of settings auth rl] that limit c0
    show ?thesis by (simp add: max_def) 
  qed
  have last_lt: "nat limit < length nows" using calls by simp
  then have "nows ! nat limit \<in> set nows" by simp
  with minute have d: "nows ! nat limit div 60 = w" by blast
  have bounds: "0 \<le> w * 60 + 60 - nows ! nat limit \<and> w * 60 + 60 - nows ! nat limit \<le> 60"
    using d by presburger
  have refused: "fst (check_rate_limit_seq settings auth nows rl) ! nat limit =
      Inl (HTTP_429_rate_limited (w * 60 + 60 - nows ! nat limit) limit 0 (w * 60 + 60))"
    using check_rate_limit_seq_nth [OF minute last_lt, of settings auth rl] limit c0
    by simp
  from ok refused bounds show ?thesis by blast
qed

theorem rate_limit_refuses_after_limit_witness:
  "fresh_window Map.empty (key_id trial_auth) 2 \<and>
   120 div 60 = (2::int) \<and> 150 div 60 = (2::int) \<and> 179 div 60 = (2::int) \<and>
   get_rate_limit_for_tier tight_settings (auth_tier trial_auth) = 2 \<and>
   length [120, 150, 179 :: int] = nat 2 + 1 \<and>
   fst (check_rate_limit_seq tight_settings trial_auth [120, 150, 179] Map.empty) ! 0 =
     Inr (2, 1, 180) \<and>
   fst (check_rate_limit_seq tight_settings trial_auth [120, 150, 179] Map.empty) ! 1 =
     Inr (2, 0, 180) \<and>
   fst (check_rate_limit_seq tight_settings trial_auth [120, 150, 179] Map.empty) ! 2 =
     Inl (HTTP_429_rate_limited 1 2 0 180)"
proof -
  have f: "fresh_window Map.empty (key_id trial_auth) 2"
    by (simp add: fresh_window_def)
  have m: "\<forall>t\<in>set [120, 150, 179 :: int]. t div 60 = 2" by simp
  have l: "get_rate_limit_for_tier tight_settings (auth_tier trial_auth) = 2"
    by (simp add: get_rate_limit_for_tier_def tight_settings_def trial_auth_def)
  have z: "(0::int) \<le> 2" by simp
  have n: "length [120, 150, 179 :: int] = nat 2 + 1" by simp
  from rate_limit_refuses_after_limit [OF f m l z n] f l
  show ?thesis by (auto simp: numeral_2_eq_2)
qed

section \<open>Webhook signatures\<close>

text \<open>\<open>int(str(i))\<close> is \<open>i\<close>.\<close>

declare str_nat.simps [simp del]

lemma is_digit_not_other:
  assumes "is_digit c"
  shows "\<not> is_space c" "c \<noteq> CHR ''-''" "c \<noteq> CHR ''+''" "c \<noteq> CHR '',''" "c \<noteq> CHR ''_''"
  using assms by (auto simp: is_digit_def is_space_def)

lemma digit_char:
  assumes "d < 10"
  shows "is_digit (char_of (48 + d))" "digit_val (char_of (48 + d)) = d"
proof -
  have v: "of_char (char_of (48 + d) :: char) = 48 + d"
    using assms by (simp add: of_char_of)
  show "is_digit (char_of (48 + d))" using assms v by (simp add: is_digit_def)
  show "digit_val (char_of (48 + d)) = d" using v by (simp add: digit_val_def)
qed

lemma str_nat_digits: "str_nat n \<noteq> [] \<and> list_all is_digit (str_nat n)"
proof (induction n rule: str_nat.induct)
  case (1 n)
  show ?case
  proof (cases "n < 10")
    case True
    then show ?thesis by (simp add: str_nat.simps [of n] digit_char)
  next
    case False
    then show ?thesis using 1 by (simp add: str_nat.simps [of n] digit_char)
  qed
qed

lemma digits_from_snoc:
  assumes "list_all is_digit ds" and "is_digit d"
  shows "digits_from acc (ds @ [d]) =
         map_option (\<lambda>v. v * 10 + digit_val d) (digits_from acc ds)"
  using assms by (induction ds arbitrary: acc) (auto simp: is_digit_not_other)

lemma parse_nat_snoc:
  assumes "ds \<noteq> []" "list_all is_digit ds" "is_digit d"
  shows "parse_nat (ds @ [d]) = map_option (\<lambda>v. v * 10 + digit_val d) (parse_nat ds)"
proof -
  from assms(1) obtain c cs where ds: "ds = c # cs" by (cases ds) auto
  then show ?thesis using assms(2,3) by (simp add: parse_nat_def digits_from_snoc)
qed

lemma parse_nat_str_nat: "parse_nat (str_nat n) = Some n"
proof (induction n rule: str_nat.induct)
  case (1 n)
  show ?case
  proof (cases "n < 10")
    case True
    then show ?thesis by (simp add: str_nat.simps [of n] parse_nat_def digit_char)
  next
    case False
    then have ih: "parse_nat (str_nat (n div 10)) = Some (n div 10)" using 1 by simp
    have "parse_nat (str_nat (n div 10) @ [char_of (48 + n mod 10)]) =
          Some (n div 10 * 10 + n mod 10)"
      using str_nat_digits [of "n div 10"] ih
      by (simp add: parse_nat_snoc digit_char)
    then show ?thesis using False by (simp add: str_nat.simps [of n])
  qed
qed

lemma strip_id:
  assumes "s \<noteq> []" "\<not> is_space (hd s)" "\<not> is_space (last s)"
  shows "strip s = s"
proof -
  have 1: "dropWhile is_space s = s" using assms(1,2) by (cases s) auto
  obtain x xs where r: "rev s = x # xs" using assms(1) by (cases "rev s") auto
  have "hd (rev s) = last s" using assms(1) by (simp add: hd_rev)
  then have "x = last s" by (simp only: r list.sel)
  then have "dropWhile is_space (x # xs) = x # xs" using assms(3) by simp
  then have 2: "dropWhile is_space (rev s) = rev s" by (simp only: r)
  show ?thesis by (simp add: strip_def 1 2)
qed

lemma str_int_shape:
  "str_int i \<noteq> [] \<and> CHR '','' \<notin> set (str_int i) \<and>
   \<not> is_space (hd (str_int i)) \<and> \<not> is_space (last (str_int i))"
proof -
  have d: "str_nat n \<noteq> [] \<and> (\<forall>c\<in>set (str_nat n). is_digit c)" for n
    using str_nat_digits [of n] by (simp add: list_all_iff)
  have h: "is_digit (hd (str_nat n))" "is_digit (last (str_nat n))" for n
    using d [of n] by simp_all
  have m: "\<not> is_space (CHR ''-'')" by (simp add: is_space_def)
  have nc: "CHR '','' \<notin> set (str_nat n)" for n
    using d [of n] is_digit_not_other(4) by blast
  have ns: "\<not> is_space (hd (str_nat n))" "\<not> is_space (last (str_nat n))" for n
    using h [of n] by (simp_all add: is_digit_not_other)
  show ?thesis
    using d [of "nat i"] d [of "nat (- i)"] nc ns m
    by (simp add: str_int_def)
qed

lemma parse_int_str_int: "parse_int (str_int i) = Some i"
proof -
  have s: "strip (str_int i) = str_int i"
    using str_int_shape [of i] by (simp add: strip_id)
  show ?thesis
  proof (cases "i < 0")
    case True
    then show ?thesis
      by (simp add: parse_int_def s) (simp add: str_int_def parse_nat_str_nat)
  next
    case False
    obtain c cs where cs: "str_nat (nat i) = c # cs"
      using str_nat_digits [of "nat i"] by (cases "str_nat (nat i)") auto
    then have "is_digit c" using str_nat_digits [of "nat i"] by simp
    then have "c \<noteq> CHR ''-''" "c \<noteq> CHR ''+''" by (simp_all add: is_digit_not_other)
    moreover have "parse_nat (c # cs) = Some (nat i)"
      using parse_nat_str_nat [of "nat i"] cs by simp
    ultimately show ?thesis
      using False cs s by (simp add: parse_int_def str_int_def)
  qed
qed

text \<open>Parsing the header that \<open>generate_webhook_signature\<close> writes.\<close>

lemma split_on_no_sep: "sep \<notin> set b \<Longrightarrow> split_on sep b = [b]"
  by (induction b) auto

lemma split_on_append:
  "sep \<notin> set a \<Longrightarrow> split_on sep (a @ sep # b) = a # split_on sep b"
  by (induction a) auto

lemma hex_digest_shape:
  assumes "hex_digest_ok h"
  shows "h \<noteq> []" "CHR '','' \<notin> set h" "is_ascii h"
proof -
  from assms have l: "length h = 64" and x: "\<forall>c\<in>set h. is_hex c"
    by (simp_all add: hex_digest_ok_def list_all_iff)
  show "h \<noteq> []" using l by auto
  have "c \<noteq> CHR '','' \<and> (of_char c :: nat) < 128" if "is_hex c" for c
    using that by (auto simp: is_hex_def)
  with x show "CHR '','' \<notin> set h" "is_ascii h"
    by (auto simp: is_ascii_def list_all_iff)
qed

lemma parse_generated_signature:
  assumes "CHR '','' \<notin> set h"
  shows "parse_signature (''t='' @ str_int ts @ '',v1='' @ h) = [(''t'', str_int ts), (''v1'', h)]"
proof -
  have a: "CHR '','' \<notin> set (''t='' @ str_int ts)"
    using str_int_shape [of ts] by simp
  have b: "CHR '','' \<notin> set (''v1='' @ h)"
    using assms by simp
  have "split_on (CHR '','') ((''t='' @ str_int ts) @ CHR '','' # (''v1='' @ h)) =
        [''t='' @ str_int ts, ''v1='' @ h]"
    by (simp only: split_on_append [OF a] split_on_no_sep [OF b])
  then have "split_on (CHR '','') (''t='' @ str_int ts @ '',v1='' @ h) =
        [''t='' @ str_int ts, ''v1='' @ h]"
    by simp
  then show ?thesis
    by (simp add: parse_signature_def split_key_value_def)
qed

text \<open>Verifying a generated signature against any payload, at any time.\<close>

lemma verify_generated:
  assumes "hex_digest_ok (mac secret (signed_message ts payload))"
  shows "verify_webhook_signature mac now payload'
           (generate_webhook_signature mac now0 payload secret (Some ts)) secret max_age =
         (if \<bar>now - ts\<bar> > max_age then Inr False
          else compare_digest (mac secret (signed_message ts payload))
                 (mac secret (signed_message ts payload')))"
proof -
  let ?h = "mac secret (signed_message ts payload)"
  note hs = hex_digest_shape [OF assms]
  have sig: "generate_webhook_signature mac now0 payload secret (Some ts) =
             ''t='' @ str_int ts @ '',v1='' @ ?h"
    by (simp add: generate_webhook_signature_def)
  have ps: "parse_signature (generate_webhook_signature mac now0 payload secret (Some ts)) =
            [(''t'', str_int ts), (''v1'', ?h)]"
    by (simp only: sig parse_generated_signature [OF hs(2)])
  have nes: "generate_webhook_signature mac now0 payload secret (Some ts) \<noteq> []"
    by (simp add: sig)
  have ne: "str_int ts \<noteq> []" using str_int_shape [of ts] by simp
  show ?thesis
    using hs(1) ne nes
    by (simp add: verify_webhook_signature_def ps parse_int_str_int Let_def)
qed

text \<open>
  What the code itself settles about signatures, for any digest function \<open>mac\<close> whose
  digest of the signed text is well formed: a signature generated for \<open>payload\<close> at
  time \<open>now\<close> verifies at time \<open>now\<close>, and at the clock reading \<open>now - 301\<close>
  with the maximum age 300 it is rejected.
\<close>

lemma generated_signature_round_trip:
  assumes digest: "hex_digest_ok (mac secret (signed_message now payload))"
  shows "verify_webhook_signature mac now payload
           (generate_webhook_signature mac now payload secret (Some now)) secret 300 = Inr True \<and>
         verify_webhook_signature mac (now - 301) payload
           (generate_webhook_signature mac now payload secret (Some now)) secret 300 = Inr False"
proof -
  note vg = verify_generated [where mac = mac and secret = secret and ts = now
      and payload = payload, OF digest]
  note asc = hex_digest_shape(3) [where h = "mac secret (signed_message now payload)", OF digest]
  have valid: "verify_webhook_signature mac now payload
           (generate_webhook_signature mac now payload secret (Some now)) secret 300 = Inr True"
    using asc by (simp add: vg compare_digest_def)
  have stale: "verify_webhook_signature mac (now - 301) payload
           (generate_webhook_signature mac now payload secret (Some now)) secret 300 = Inr False"
    by (simp add: vg)
  from valid stale show ?thesis by blast
qed

text \<open>
  Against another payload the verdict is the comparison of the two digests and nothing
  else: a changed payload is rejected exactly when its signed text has another digest.
  Whether HMAC-SHA256 gives another digest to every text changed in one byte is a
  question about the library function that this development leaves open.
\<close>

lemma changed_payload_verdict:
  assumes digest: "hex_digest_ok (mac secret (signed_message now payload))"
    and digest': "hex_digest_ok (mac secret (signed_message now payload'))"
  shows "verify_webhook_signature mac now payload'
           (generate_webhook_signature mac now payload secret (Some now)) secret 300 =
         Inr (mac secret (signed_message now payload) =
              mac secret (signed_message now payload'))"
proof -
  note vg = verify_generated [where mac = mac and secret = secret and ts = now
      and payload = payload, OF digest]
  note asc = hex_digest_shape(3) [where h = "mac secret (signed_message now payload)", OF digest]
  note asc' = hex_digest_shape(3) [where h = "mac secret (signed_message now payload')",
      OF digest']
  show ?thesis using asc asc' by (simp add: vg compare_digest_def)
qed

section \<open>Where pipeline faults come from\<close>

lemma nova_stage_fault_source:
  "fst (nova_stage settings agents jid ops opts uid acc s) = Inl e \<Longrightarrow>
   NOVA \<in> set ops \<and> nova_agent agents (nova_request settings opts (snd acc) uid jid) = Inl e"
  by (simp add: nova_stage_def Let_def split: if_splits sum.splits)

lemma flux_stage_fault_source:
  "fst (flux_stage settings agents jid ops opts uid acc s) = Inl e \<Longrightarrow>
   FLUX \<in> set ops \<and> flux_agent agents (flux_request settings opts (snd acc) uid jid) = Inl e"
  by (simp add: flux_stage_def Let_def split: if_splits sum.splits option.splits)

lemma atlas_stage_fault_source:
  "fst (atlas_stage settings agents jid ops opts uid acc s) = Inl e \<Longrightarrow>
   ATLAS \<in> set ops \<and>
   atlas_agent agents (atlas_request settings opts (snd acc) uid jid (fst acc)) = Inl e"
  by (simp add: atlas_stage_def Let_def split: if_splits sum.splits option.splits)

text \<open>A fault of the pipeline is the fault of one requested stage's agent call.\<close>

lemma run_stages_fault_source:
  assumes "fst (run_stages settings agents jid img ops opts uid s) = Inl e"
  shows "(NOVA \<in> set ops \<and> (\<exists>req. nova_agent agents req = Inl e)) \<or>
         (FLUX \<in> set ops \<and> (\<exists>req. flux_agent agents req = Inl e)) \<or>
         (ATLAS \<in> set ops \<and> (\<exists>req. atlas_agent agents req = Inl e))"
  using assms nova_stage_fault_source flux_stage_fault_source atlas_stage_fault_source
  by (fastforce simp: run_stages_unfold Let_def split: sum.splits)

lemma run_stages_nova_fault:
  assumes "NOVA \<in> set ops"
    and "nova_agent agents (nova_request settings opts img uid jid) = Inl e"
  shows "fst (run_stages settings agents jid img ops opts uid s) = Inl e"
  using assms by (simp add: run_stages_unfold nova_stage_def Let_def)

end
